theory Spec2Isabelle
  imports Complex_Main "HOL-Library.Sublist"
begin

section \<open>Data model of the viewer (src/src/ModelCanvas.tsx)\<close>

text \<open>
  Objects that the source compares by reference (materials, meshes, textures) are modelled
  by identifiers; the mutable materials live in a store indexed by their identifier, because
  the scene graph and the list \<open>materialsRef\<close> alias them.

  Numbers are reals. The arithmetic of the component's own scalar code (the frame callback,
  the conversion of degrees, the numeric literals it stores) is double-precision: every
  operation is followed by \<open>double\<close>, the rounding defined below. The auto-frame effect,
  whose result the specification states up to floating-point tolerance, and the colour
  stage of the shader, which runs on the graphics hardware, are stated over the reals.
\<close>

subsection \<open>Double-precision rounding\<close>

text \<open>
  \<open>double x\<close> is the binary64 number nearest to \<open>x\<close>, ties to the even significand:
  \<open>exponent x\<close> is the power of two at or below \<open>\<bar>x\<bar>\<close>, and \<open>x\<close> is rounded to a multiple of
  \<open>2 powi (exponent x - 52)\<close>. The exponent range is unbounded: overflow, subnormal numbers,
  infinities and NaN are not represented.
\<close>

definition ties_even :: "real \<Rightarrow> int" where
  "ties_even x =
     (let n = \<lfloor>x\<rfloor>; r = x - of_int n
      in if r < 1 / 2 then n else if 1 / 2 < r then n + 1 else if even n then n else n + 1)"

function up :: "real \<Rightarrow> int" where
  "up x = (if 2 \<le> x then up (x / 2) + 1 else 0)"
  by pat_completeness auto
termination
proof (relation "measure (\<lambda>x. nat \<lfloor>x\<rfloor>)")
  show "wf (measure (\<lambda>x. nat \<lfloor>x\<rfloor>))" by simp
next
  fix x :: real
  assume x: "2 \<le> x"
  have "\<lfloor>x / 2\<rfloor> < \<lfloor>x\<rfloor>" using x by (simp add: floor_less_iff) linarith
  moreover have "0 < \<lfloor>x\<rfloor>" using x by simp
  ultimately show "(x / 2, x) \<in> measure (\<lambda>x. nat \<lfloor>x\<rfloor>)" by simp
qed

function down :: "real \<Rightarrow> int" where
  "down x = (if 0 < x \<and> x < 1 then down (2 * x) - 1 else 0)"
  by pat_completeness auto
termination
proof (relation "measure (\<lambda>x. nat \<lceil>1 / x\<rceil>)")
  show "wf (measure (\<lambda>x. nat \<lceil>1 / x\<rceil>))" by simp
next
  fix x :: real
  assume x: "0 < x \<and> x < 1"
  have half: "\<lceil>y / 2\<rceil> < \<lceil>y\<rceil> \<and> 0 < \<lceil>y\<rceil>" if "1 < y" for y :: real
  proof -
    have a: "2 \<le> \<lceil>y\<rceil>" using that by (simp add: le_ceiling_iff)
    have a': "(2::real) \<le> of_int \<lceil>y\<rceil>" using a by linarith
    have b: "y \<le> of_int \<lceil>y\<rceil>" by (rule le_of_int_ceiling)
    have "y / 2 \<le> of_int \<lceil>y\<rceil> - 1" using a' b by linarith
    then have "y / 2 \<le> of_int (\<lceil>y\<rceil> - 1)" by simp
    then have "\<lceil>y / 2\<rceil> \<le> \<lceil>y\<rceil> - 1" by (simp only: ceiling_le_iff)
    then show ?thesis using a by linarith
  qed
  have e: "1 / (2 * x) = (1 / x) / 2" by simp
  have y: "1 < 1 / x" using x by simp
  have "nat \<lceil>1 / (2 * x)\<rceil> < nat \<lceil>1 / x\<rceil>"
    unfolding e using half [OF y] by linarith
  then show "(2 * x, x) \<in> measure (\<lambda>x. nat \<lceil>1 / x\<rceil>)" by (simp only: in_measure)
qed

definition exponent :: "real \<Rightarrow> int" where
  "exponent x = (if 1 \<le> \<bar>x\<bar> then up \<bar>x\<bar> else down \<bar>x\<bar>)"

definition double :: "real \<Rightarrow> real" where
  "double x =
     (if x = 0 then 0
      else of_int (ties_even (x / 2 powi (exponent x - 52))) * 2 powi (exponent x - 52))"

type_synonym mat_id = nat
type_synonym obj_id = nat
type_synonym vec3 = "real \<times> real \<times> real"
type_synonym box3 = "(vec3 \<times> vec3) option"

datatype texture = FallbackTexture | NoiseTexture | Tex nat

text \<open>The uniform block written by the \<open>onBeforeCompile\<close> hook (lines 179-182).\<close>

record uniforms =
  uPrevMap :: texture
  uNextMap :: texture
  uNoiseMap :: texture
  uMix :: real

text \<open>
  A material: its authored fields, the hook slot, the version counter that three.js bumps
  on \<open>needsUpdate = true\<close>, and the \<open>userData\<close> entries the component uses
  (\<open>__patched\<close>, \<open>blendUniforms\<close>, \<open>originalMap\<close>, \<open>currentMap\<close>,
  \<open>transitionProgress\<close>). An absent (\<open>undefined\<close>) or \<open>null\<close> entry is \<open>None\<close>.
\<close>

record material =
  map_m :: "texture option"
  metalness :: "real option"
  roughness :: "real option"
  onBeforeCompile :: bool
  version :: nat
  patched :: bool
  blendUniforms :: "uniforms option"
  originalMap :: "texture option"
  currentMap :: "texture option"
  transitionProgress :: "real option"

text \<open>
  The scene graph: every node has an identity and children; a mesh carries one material or
  an array of materials (\<open>Array.isArray(mesh.material)\<close>, line 170).
\<close>

datatype mesh_material = Single mat_id | Multi "mat_id list"

datatype object3d = Object3D (ident: obj_id) (mesh: "mesh_material option") (children: "object3d list")

text \<open>The group that wraps the scene (\<open>groupRef\<close>): uniform scale, position, rotation about Y.\<close>

record group =
  g_scale :: real
  g_position :: vec3
  g_rotation_y :: real

text \<open>A load issued through \<open>TextureLoader.load\<close> with the \<open>cancelled\<close> flag of its closure.\<close>

record request =
  req_url :: string
  cancelled :: bool

text \<open>
  The state of one mounted \<open>Model\<close> component: its two pieces of React state, its refs, the
  loads it has issued for each slot with the pending cleanup of the current effect, the
  material store, the shadow flags of the meshes and the console.
\<close>

record model_state =
  originalMaps :: "mat_id \<rightharpoonup> texture option"
  texture :: "texture option"
  stickerTexture :: "texture option"
  materialsRef :: "mat_id list"
  stickerTargetRef :: "obj_id option"
  groupRef :: "group option"
  mats :: "mat_id \<Rightarrow> material"
  castShadow :: "obj_id \<Rightarrow> bool"
  receiveShadow :: "obj_id \<Rightarrow> bool"
  textureLoads :: "request list"
  textureCleanup :: "nat option"
  stickerLoads :: "request list"
  stickerCleanup :: "nat option"
  console :: "string list"

record sticker_transform =
  t_position :: vec3
  t_rotation :: vec3
  t_scale :: real

text \<open>The props handed to the \<open>Decal\<close> element (lines 309-320).\<close>

record decal =
  d_mesh :: obj_id
  d_position :: vec3
  d_rotation :: vec3
  d_scale :: real
  d_map :: texture

section \<open>The failure boundary (lines 40-77, 360)\<close>

datatype err = Err string

record boundary =
  error_state :: "err option"
  resetKey :: string

datatype rendered = Fallback_notice | Children

datatype boundary_event = Caught err | Props string "string option"

definition reset_key :: "string \<Rightarrow> string option \<Rightarrow> string" where
  "reset_key modelUrl textureUrl =
     modelUrl @ ''-'' @ (case textureUrl of None \<Rightarrow> ''none'' | Some u \<Rightarrow> u)"

definition constructor_b :: "string \<Rightarrow> boundary" where
  "constructor_b k = \<lparr>error_state = None, resetKey = k\<rparr>"

definition getDerivedStateFromError :: "err \<Rightarrow> boundary \<Rightarrow> boundary" where
  "getDerivedStateFromError e b = b\<lparr>error_state := Some e\<rparr>"

definition componentDidUpdate :: "string \<Rightarrow> boundary \<Rightarrow> boundary" where
  "componentDidUpdate prevKey b =
     (if prevKey \<noteq> resetKey b \<and> error_state b \<noteq> None then b\<lparr>error_state := None\<rparr> else b)"

definition componentDidCatch :: "err \<Rightarrow> string list \<Rightarrow> string list" where
  "componentDidCatch e out = out @ [''Model load failed'']"

definition render_b :: "boundary \<Rightarrow> rendered" where
  "render_b b = (if error_state b \<noteq> None then Fallback_notice else Children)"

text \<open>
  One step of the boundary: an error thrown below it reaches \<open>getDerivedStateFromError\<close>;
  a re-render with new props stores the new key and then runs \<open>componentDidUpdate\<close> with
  the previous one.
\<close>

fun boundary_step :: "boundary_event \<Rightarrow> boundary \<Rightarrow> boundary" where
  "boundary_step (Caught e) b = getDerivedStateFromError e b"
| "boundary_step (Props modelUrl textureUrl) b =
     componentDidUpdate (resetKey b) (b\<lparr>resetKey := reset_key modelUrl textureUrl\<rparr>)"

definition Healthy :: "boundary \<Rightarrow> bool" where
  "Healthy b = (error_state b = None)"

definition Failed :: "boundary \<Rightarrow> bool" where
  "Failed b = (error_state b \<noteq> None)"

section \<open>The Model component\<close>

subsection \<open>Scene traversal\<close>

text \<open>
  \<open>scene.traverse(callback)\<close> of three.js calls the callback on the object and then
  traverses each child in order: a pre-order walk.
\<close>

fun traverse :: "object3d \<Rightarrow> object3d list" where
  "traverse (Object3D i k cs) = Object3D i k cs # concat (map traverse cs)"

text \<open>Line 170: a single material is wrapped into a one-element array.\<close>

fun materials_of :: "mesh_material \<Rightarrow> mat_id list" where
  "materials_of (Single m) = [m]"
| "materials_of (Multi ms) = ms"

definition object_materials :: "object3d \<Rightarrow> mat_id list" where
  "object_materials ob = (case mesh ob of None \<Rightarrow> [] | Some mm \<Rightarrow> materials_of mm)"

definition scene_materials :: "object3d \<Rightarrow> mat_id list" where
  "scene_materials scene = concat (map object_materials (traverse scene))"

definition scene_meshes :: "object3d \<Rightarrow> obj_id list" where
  "scene_meshes scene = map ident (filter (\<lambda>ob. mesh ob \<noteq> None) (traverse scene))"

definition first_mesh :: "object3d \<Rightarrow> obj_id option" where
  "first_mesh scene = (case scene_meshes scene of [] \<Rightarrow> None | i # _ \<Rightarrow> Some i)"

subsection \<open>The material patch effect (lines 159-230)\<close>

text \<open>
  The body of \<open>materials.forEach\<close> (lines 171-227) for one material. Installing the hook
  (lines 177-212) assigns \<open>onBeforeCompile\<close>, sets the marker and requests a recompile
  (\<open>needsUpdate = true\<close>, which three.js records by incrementing the version).
\<close>

definition install_hook :: "material \<Rightarrow> material" where
  "install_hook mat =
     (if \<not> patched mat
      then mat\<lparr>onBeforeCompile := True, patched := True, version := Suc (version mat)\<rparr>
      else mat)"

definition default_pbr :: "material \<Rightarrow> material" where
  "default_pbr mat =
     (let mat1 = (if metalness mat = None then mat\<lparr>metalness := Some (double 0.2)\<rparr> else mat)
      in if roughness mat1 = None then mat1\<lparr>roughness := Some (double 0.6)\<rparr> else mat1)"

definition record_original :: "material \<Rightarrow> material" where
  "record_original mat =
     (if originalMap mat = None then mat\<lparr>originalMap := map_m mat\<rparr> else mat)"

definition patch_material :: "mat_id \<Rightarrow> model_state \<Rightarrow> model_state" where
  "patch_material m s =
     (let s1 = (if originalMaps s m = None
                then s\<lparr>originalMaps := (originalMaps s)(m \<mapsto> map_m (mats s m))\<rparr>
                else s);
          s2 = s1\<lparr>mats := (mats s1)(m := record_original (default_pbr (install_hook (mats s1 m))))\<rparr>
      in if m \<notin> set (materialsRef s2)
         then s2\<lparr>materialsRef := materialsRef s2 @ [m]\<rparr>
         else s2)"

text \<open>The callback of \<open>scene.traverse\<close> (lines 161-229) for one object.\<close>

definition visit_object :: "object3d \<Rightarrow> model_state \<Rightarrow> model_state" where
  "visit_object ob s =
     (case mesh ob of
        None \<Rightarrow> s
      | Some mm \<Rightarrow>
          (let s1 = (if stickerTargetRef s = None
                     then s\<lparr>stickerTargetRef := Some (ident ob)\<rparr>
                     else s);
               s2 = s1\<lparr>castShadow := (castShadow s1)(ident ob := True),
                        receiveShadow := (receiveShadow s1)(ident ob := True)\<rparr>
           in fold patch_material (materials_of mm) s2))"

definition patch_effect :: "object3d \<Rightarrow> model_state \<Rightarrow> model_state" where
  "patch_effect scene s = fold visit_object (traverse scene) s"

text \<open>
  The hook itself (lines 178-209), run by the renderer when it compiles the material: it
  creates the uniform block and keeps a reference to it in \<open>userData.blendUniforms\<close>.
\<close>

definition run_hook :: "material \<Rightarrow> material" where
  "run_hook mat =
     (if onBeforeCompile mat
      then (let m0 = (case map_m mat of None \<Rightarrow> FallbackTexture | Some t \<Rightarrow> t)
            in mat\<lparr>blendUniforms :=
                 Some \<lparr>uPrevMap = m0, uNextMap = m0, uNoiseMap = NoiseTexture, uMix = 1\<rparr>\<rparr>)
      else mat)"

definition compile :: "mat_id \<Rightarrow> model_state \<Rightarrow> model_state" where
  "compile m s = s\<lparr>mats := (mats s)(m := run_hook (mats s m))\<rparr>"

subsection \<open>The texture-change effect (lines 232-246)\<close>

definition retarget :: "texture \<Rightarrow> texture option \<Rightarrow> material \<Rightarrow> material" where
  "retarget original tex mat =
     (let currentApplied = (case currentMap mat of None \<Rightarrow> original | Some c \<Rightarrow> c);
          nextMap = (case tex of None \<Rightarrow> original | Some t \<Rightarrow> t);
          mat1 = (case blendUniforms mat of
                    None \<Rightarrow> mat
                  | Some u \<Rightarrow> mat\<lparr>blendUniforms :=
                      Some (u\<lparr>uPrevMap := currentApplied, uNextMap := nextMap, uMix := 0\<rparr>)\<rparr>)
      in mat1\<lparr>currentMap := Some nextMap, transitionProgress := Some 0\<rparr>)"

definition original_of :: "model_state \<Rightarrow> mat_id \<Rightarrow> texture" where
  "original_of s m = (case originalMaps s m of Some (Some t) \<Rightarrow> t | _ \<Rightarrow> FallbackTexture)"

definition texture_change_effect :: "model_state \<Rightarrow> model_state" where
  "texture_change_effect s =
     fold (\<lambda>m s'. s'\<lparr>mats := (mats s')(m := retarget (original_of s' m) (texture s') (mats s' m))\<rparr>)
       (materialsRef s) s"

subsection \<open>The per-frame callback (lines 287-303)\<close>

definition frame_material :: "real \<Rightarrow> material \<Rightarrow> material" where
  "frame_material delta mat =
     (case blendUniforms mat of
        None \<Rightarrow> mat
      | Some u \<Rightarrow>
          (let progress = (case transitionProgress mat of None \<Rightarrow> 1 | Some p \<Rightarrow> p)
           in if progress < 1
              then (let duration = double 0.8;
                        next = min 1 (double (progress + double (delta / duration)))
                    in mat\<lparr>blendUniforms := Some (u\<lparr>uMix := next\<rparr>),
                           transitionProgress := Some next\<rparr>)
              else mat))"

definition useFrame :: "real \<Rightarrow> model_state \<Rightarrow> model_state" where
  "useFrame delta s =
     (let s1 = fold (\<lambda>m s'. s'\<lparr>mats := (mats s')(m := frame_material delta (mats s' m))\<rparr>)
                 (materialsRef s) s
      in case groupRef s1 of
           None \<Rightarrow> s1
         | Some g \<Rightarrow> s1\<lparr>groupRef :=
               Some (g\<lparr>g_rotation_y := double (g_rotation_y g + double (delta * double 0.15))\<rparr>)\<rparr>)"

subsection \<open>The texture and sticker load effects (lines 127-157, 248-273)\<close>

text \<open>
  \<open>!url\<close> holds for \<open>null\<close>, \<open>undefined\<close> and the empty string: only for another URL
  does the effect issue a load.
\<close>

definition issues_load :: "string option \<Rightarrow> bool" where
  "issues_load url = (case url of None \<Rightarrow> False | Some u \<Rightarrow> u \<noteq> [])"

definition cancel :: "nat option \<Rightarrow> request list \<Rightarrow> request list" where
  "cancel c rs =
     (case c of
        None \<Rightarrow> rs
      | Some i \<Rightarrow> if i < length rs then rs[i := (rs ! i)\<lparr>cancelled := True\<rparr>] else rs)"

text \<open>
  A change of \<open>textureUrl\<close>: React first runs the cleanup returned by the previous run of
  the effect (lines 154-156), then the effect. The new load gets the next index.
\<close>

definition texture_effect :: "string option \<Rightarrow> model_state \<Rightarrow> model_state" where
  "texture_effect url s =
     (let s1 = s\<lparr>textureLoads := cancel (textureCleanup s) (textureLoads s), textureCleanup := None\<rparr>
      in case url of
           None \<Rightarrow> s1\<lparr>texture := None\<rparr>
         | Some u \<Rightarrow>
             if u = [] then s1\<lparr>texture := None\<rparr>
             else s1\<lparr>texture := None,
                     textureLoads := textureLoads s1 @ [\<lparr>req_url = u, cancelled = False\<rparr>],
                     textureCleanup := Some (length (textureLoads s1))\<rparr>)"

definition live :: "request list \<Rightarrow> nat \<Rightarrow> bool" where
  "live rs i = (i < length rs \<and> \<not> cancelled (rs ! i))"

text \<open>
  The two callbacks of load \<open>i\<close>. The settings written into the loaded texture (colour
  space, wrapping; lines 143-145) are not represented.
\<close>

definition texture_onLoad :: "nat \<Rightarrow> texture \<Rightarrow> model_state \<Rightarrow> model_state" where
  "texture_onLoad i loaded s = (if live (textureLoads s) i then s\<lparr>texture := Some loaded\<rparr> else s)"

definition texture_onError :: "nat \<Rightarrow> model_state \<Rightarrow> model_state" where
  "texture_onError i s = (if live (textureLoads s) i then s\<lparr>texture := None\<rparr> else s)"

definition sticker_effect :: "string option \<Rightarrow> model_state \<Rightarrow> model_state" where
  "sticker_effect url s =
     (let s1 = s\<lparr>stickerLoads := cancel (stickerCleanup s) (stickerLoads s), stickerCleanup := None\<rparr>
      in case url of
           None \<Rightarrow> s1\<lparr>stickerTexture := None\<rparr>
         | Some u \<Rightarrow>
             if u = [] then s1\<lparr>stickerTexture := None\<rparr>
             else s1\<lparr>stickerLoads := stickerLoads s1 @ [\<lparr>req_url = u, cancelled = False\<rparr>],
                     stickerCleanup := Some (length (stickerLoads s1))\<rparr>)"

definition sticker_onLoad :: "nat \<Rightarrow> texture \<Rightarrow> model_state \<Rightarrow> model_state" where
  "sticker_onLoad i loaded s =
     (if live (stickerLoads s) i then s\<lparr>stickerTexture := Some loaded\<rparr> else s)"

definition sticker_onError :: "nat \<Rightarrow> model_state \<Rightarrow> model_state" where
  "sticker_onError i s = (if live (stickerLoads s) i then s\<lparr>stickerTexture := None\<rparr> else s)"

subsection \<open>The auto-frame effect (lines 275-285)\<close>

text \<open>
  \<open>Box3.setFromObject\<close> of three.js returns the world-space axis-aligned box of an object
  and its descendants, from the current transforms; \<open>getSize\<close> and \<open>getCenter\<close> of an
  empty box are the zero vector. The geometry below the group enters as \<open>content\<close>: its box
  in the frame of the group before the group's scale and position apply (\<open>None\<close> when
  there is no geometry). The group only ever receives a uniform scale (\<open>setScalar\<close>).
\<close>

definition setFromObject :: "group \<Rightarrow> box3 \<Rightarrow> box3" where
  "setFromObject g content =
     (case content of
        None \<Rightarrow> None
      | Some ((lx, ly, lz), (hx, hy, hz)) \<Rightarrow>
          (let k = g_scale g; (px, py, pz) = g_position g
           in Some ((min (k * lx) (k * hx) + px, min (k * ly) (k * hy) + py, min (k * lz) (k * hz) + pz),
                    (max (k * lx) (k * hx) + px, max (k * ly) (k * hy) + py, max (k * lz) (k * hz) + pz))))"

definition getSize :: "box3 \<Rightarrow> vec3" where
  "getSize b =
     (case b of
        None \<Rightarrow> (0, 0, 0)
      | Some ((lx, ly, lz), (hx, hy, hz)) \<Rightarrow> (hx - lx, hy - ly, hz - lz))"

definition getCenter :: "box3 \<Rightarrow> vec3" where
  "getCenter b =
     (case b of
        None \<Rightarrow> (0, 0, 0)
      | Some ((lx, ly, lz), (hx, hy, hz)) \<Rightarrow> ((lx + hx) / 2, (ly + hy) / 2, (lz + hz) / 2))"

definition max_extent :: "box3 \<Rightarrow> real" where
  "max_extent b = (case getSize b of (x, y, z) \<Rightarrow> max (max x y) z)"

definition vsub :: "vec3 \<Rightarrow> vec3 \<Rightarrow> vec3" where
  "vsub a b = (case (a, b) of ((ax, ay, az), (bx, by, bz)) \<Rightarrow> (ax - bx, ay - by, az - bz))"

definition frame_group :: "box3 \<Rightarrow> group \<Rightarrow> group" where
  "frame_group content g =
     (let box = setFromObject g content;
          maxAxis = max_extent box;
          scale = (if maxAxis > 0 then 2.4 / maxAxis else 1);
          g1 = g\<lparr>g_scale := scale\<rparr>;
          center = getCenter (setFromObject g1 content)
      in g1\<lparr>g_position := vsub (g_position g1) center\<rparr>)"

definition auto_frame :: "box3 \<Rightarrow> model_state \<Rightarrow> model_state" where
  "auto_frame content s =
     (case groupRef s of
        None \<Rightarrow> s
      | Some g \<Rightarrow> s\<lparr>groupRef := Some (frame_group content g)\<rparr>)"

subsection \<open>The decal element (lines 308-331)\<close>

definition radians :: "vec3 \<Rightarrow> vec3" where
  "radians r =
     (case r of (x, y, z) \<Rightarrow>
        (double (double (x * double pi) / 180), double (double (y * double pi) / 180),
         double (double (z * double pi) / 180)))"

definition render_decal :: "sticker_transform option \<Rightarrow> model_state \<Rightarrow> decal option" where
  "render_decal stickerTransform s =
     (case (stickerTexture s, stickerTransform, stickerTargetRef s) of
        (Some tex, Some t, Some target) \<Rightarrow>
          Some \<lparr>d_mesh = target, d_position = t_position t, d_rotation = radians (t_rotation t),
                d_scale = t_scale t, d_map = tex\<rparr>
      | _ \<Rightarrow> None)"

subsection \<open>The fragment stage installed by the hook (lines 193-207)\<close>

text \<open>
  The GLSL built-ins on reals. A sampler is a function from texture coordinates to a
  colour; \<open>use_map\<close> says whether the preprocessor symbol \<open>USE_MAP\<close> is defined, which
  three.js does exactly for materials that have a colour map.
\<close>

type_synonym vec2 = "real \<times> real"
type_synonym vec4 = "real \<times> real \<times> real \<times> real"
type_synonym sampler2D = "vec2 \<Rightarrow> vec4"

definition clamp :: "real \<Rightarrow> real \<Rightarrow> real \<Rightarrow> real" where
  "clamp x lo hi = min (max x lo) hi"

definition smoothstep :: "real \<Rightarrow> real \<Rightarrow> real \<Rightarrow> real" where
  "smoothstep e0 e1 x = (let t = clamp ((x - e0) / (e1 - e0)) 0 1 in t * t * (3 - 2 * t))"

definition mix :: "vec4 \<Rightarrow> vec4 \<Rightarrow> real \<Rightarrow> vec4" where
  "mix a b t =
     (case (a, b) of
        ((ar, ag, ab, aa), (br, bg, bb, ba)) \<Rightarrow>
          (ar * (1 - t) + br * t, ag * (1 - t) + bg * t, ab * (1 - t) + bb * t, aa * (1 - t) + ba * t))"

definition vmul :: "vec4 \<Rightarrow> vec4 \<Rightarrow> vec4" where
  "vmul a b = (case (a, b) of ((ar, ag, ab, aa), (br, bg, bb, ba)) \<Rightarrow> (ar * br, ag * bg, ab * bb, aa * ba))"

definition red :: "vec4 \<Rightarrow> real" where
  "red c = fst c"

definition noise_coord :: "real \<Rightarrow> vec2 \<Rightarrow> vec2" where
  "noise_coord m uv = (fst uv * 8 + m * 2, snd uv * 8 + m * 2)"

definition map_fragment ::
  "bool \<Rightarrow> sampler2D \<Rightarrow> sampler2D \<Rightarrow> sampler2D \<Rightarrow> real \<Rightarrow> vec2 \<Rightarrow> vec4 \<Rightarrow> vec4" where
  "map_fragment use_map prevMap nextMap noiseMap m vMapUv diffuseColor =
     (if use_map
      then (let texPrev = prevMap vMapUv;
                texNext = nextMap vMapUv;
                noise = red (noiseMap (noise_coord m vMapUv));
                mixProgress = clamp m 0 1;
                noiseEdge = smoothstep (mixProgress - 0.2) (mixProgress + 0.2) noise;
                blend = max noiseEdge mixProgress;
                texelColor = mix texPrev texNext blend
            in vmul diffuseColor texelColor)
      else diffuseColor)"

text \<open>
  The colour stage in the words of the specification (section 4.3, steps 1 to 5), for
  comparison with \<open>map_fragment\<close>.
\<close>

definition spec_color_stage ::
  "sampler2D \<Rightarrow> sampler2D \<Rightarrow> sampler2D \<Rightarrow> real \<Rightarrow> vec2 \<Rightarrow> vec4 \<Rightarrow> vec4" where
  "spec_color_stage previousMap nextMap noiseMap blendFactor uv baseColor =
     (let noiseSample = red (noiseMap (fst uv * 8 + 2 * blendFactor, snd uv * 8 + 2 * blendFactor));
          noiseEdge = smoothstep (blendFactor - 0.2) (blendFactor + 0.2) noiseSample;
          blend = max noiseEdge (clamp blendFactor 0 1)
      in vmul baseColor (mix (previousMap uv) (nextMap uv) blend))"

text \<open>
  The colour stage of a compiled material as the renderer runs it. three.js defines
  \<open>USE_MAP\<close> for a material exactly when its \<open>map\<close> is set; the samplers and the factor are
  the uniforms of the block that the hook created, and \<open>pixels\<close> gives the picture that a
  texture holds. A material whose hook has not run has the stock stage of three.js, which
  is not represented.
\<close>

definition material_fragment :: "(texture \<Rightarrow> sampler2D) \<Rightarrow> material \<Rightarrow> vec2 \<Rightarrow> vec4 \<Rightarrow> vec4 option" where
  "material_fragment pixels mat vMapUv diffuseColor =
     (case blendUniforms mat of
        None \<Rightarrow> None
      | Some u \<Rightarrow>
          Some (map_fragment (map_m mat \<noteq> None) (pixels (uPrevMap u)) (pixels (uNextMap u))
                  (pixels (uNoiseMap u)) (uMix u) vMapUv diffuseColor))"

subsection \<open>The life of a mounted component\<close>

text \<open>
  What can happen to a mounted \<open>Model\<close>: its effects run (the patch effect with the scene of
  the current model, the texture-change effect, the two load effects with the new URL, the
  auto-frame effect with the geometry under the group), a load completes or fails, the
  renderer compiles a material, a frame is rendered.
\<close>

datatype event =
    PatchEffect object3d
  | TextureChangeEffect
  | TextureEffect "string option"
  | TextureLoaded nat texture
  | TextureFailed nat
  | StickerEffect "string option"
  | StickerLoaded nat texture
  | StickerFailed nat
  | AutoFrameEffect box3
  | Compile mat_id
  | Frame real

fun step :: "event \<Rightarrow> model_state \<Rightarrow> model_state" where
  "step (PatchEffect scene) s = patch_effect scene s"
| "step TextureChangeEffect s = texture_change_effect s"
| "step (TextureEffect url) s = texture_effect url s"
| "step (TextureLoaded i t) s = texture_onLoad i t s"
| "step (TextureFailed i) s = texture_onError i s"
| "step (StickerEffect url) s = sticker_effect url s"
| "step (StickerLoaded i t) s = sticker_onLoad i t s"
| "step (StickerFailed i) s = sticker_onError i s"
| "step (AutoFrameEffect content) s = auto_frame content s"
| "step (Compile m) s = compile m s"
| "step (Frame delta) s = useFrame delta s"

definition run :: "event list \<Rightarrow> model_state \<Rightarrow> model_state" where
  "run evs s = fold step evs s"

text \<open>
  The state after the first render of a freshly mounted component, before any effect has
  run: empty refs and state (lines 92-97), the group at its identity transform, the
  materials as the loader delivered them.
\<close>

definition identity_group :: group where
  "identity_group = \<lparr>g_scale = 1, g_position = (0, 0, 0), g_rotation_y = 0\<rparr>"

definition mount :: "(mat_id \<Rightarrow> material) \<Rightarrow> model_state" where
  "mount store =
     \<lparr>originalMaps = Map.empty, texture = None, stickerTexture = None, materialsRef = [],
      stickerTargetRef = None,
      groupRef = Some identity_group,
      mats = store, castShadow = (\<lambda>_. False), receiveShadow = (\<lambda>_. False),
      textureLoads = [], textureCleanup = None, stickerLoads = [], stickerCleanup = None,
      console = []\<rparr>"

text \<open>A material as a loader delivers it: authored fields only, empty \<open>userData\<close>.\<close>

definition authored :: "texture option \<Rightarrow> real option \<Rightarrow> real option \<Rightarrow> material" where
  "authored m met rough =
     \<lparr>map_m = m, metalness = met, roughness = rough, onBeforeCompile = False, version = 0,
      patched = False, blendUniforms = None, originalMap = None, currentMap = None,
      transitionProgress = None\<rparr>"

subsection \<open>Small concrete inputs\<close>

text \<open>
  A scene with one mesh (object 0) that has the single material 0, a second model with one
  mesh (object 10) and material 1, and a store of untextured materials fresh from the loader.
\<close>

definition one_mesh_scene :: object3d where
  "one_mesh_scene = Object3D 0 (Some (Single 0)) []"

definition other_scene :: object3d where
  "other_scene = Object3D 10 (Some (Single 1)) []"

definition plain_store :: "mat_id \<Rightarrow> material" where
  "plain_store = (\<lambda>_. authored None None None)"

subsection \<open>When a run of the patch effect has nothing left to do\<close>

text \<open>
  A material is settled when every guard of lines 173-226 is already false for it; an object
  is settled when it is no mesh, or the target ref and its shadow flags are set and all its
  materials are settled.
\<close>

definition settled_material :: "mat_id \<Rightarrow> model_state \<Rightarrow> bool" where
  "settled_material m s =
     (originalMaps s m \<noteq> None \<and> m \<in> set (materialsRef s) \<and> patched (mats s m)
      \<and> metalness (mats s m) \<noteq> None \<and> roughness (mats s m) \<noteq> None
      \<and> (originalMap (mats s m) \<noteq> None \<or> map_m (mats s m) = None))"


subsection \<open>Loads that can no longer commit\<close>

text \<open>
  A load of URL \<open>u\<close> with index \<open>i\<close> is superseded when its flag is set; it is pending
  when it is superseded or is the load the current cleanup will cancel. A slot is in order
  when every load but the one held by the cleanup is cancelled and the cleanup holds the most
  recent load.
\<close>

definition superseded :: "string \<Rightarrow> request list \<Rightarrow> nat \<Rightarrow> bool" where
  "superseded u rs i = (i < length rs \<and> req_url (rs ! i) = u \<and> cancelled (rs ! i))"

definition pending :: "string \<Rightarrow> request list \<Rightarrow> nat option \<Rightarrow> nat \<Rightarrow> bool" where
  "pending u rs c i = (i < length rs \<and> req_url (rs ! i) = u \<and> (cancelled (rs ! i) \<or> c = Some i))"

definition slot_ok :: "request list \<Rightarrow> nat option \<Rightarrow> bool" where
  "slot_ok rs c =
     (list_all (\<lambda>i. c = Some i \<or> cancelled (rs ! i)) [0..<length rs]
      \<and> (case c of None \<Rightarrow> True | Some i \<Rightarrow> Suc i = length rs))"

subsection \<open>Measures and samplers for the statements below\<close>

text \<open>
  The largest extent of the geometry under the group at unit scale, and a sampler that is
  mid-grey everywhere.
\<close>

definition native_extent :: "box3 \<Rightarrow> real" where
  "native_extent content =
     (case content of
        None \<Rightarrow> 0
      | Some ((lx, ly, lz), (hx, hy, hz)) \<Rightarrow> max (max \<bar>hx - lx\<bar> \<bar>hy - ly\<bar>) \<bar>hz - lz\<bar>)"

definition grey :: sampler2D where
  "grey = (\<lambda>_. (1 / 2, 1 / 2, 1 / 2, 1))"

text \<open>
  Pictures for the textures: the fallback texture is the single white pixel of lines 98-106,
  every other texture is mid-grey.
\<close>

definition sample_pixels :: "texture \<Rightarrow> sampler2D" where
  "sample_pixels t =
     (case t of FallbackTexture \<Rightarrow> (\<lambda>_. (1, 1, 1, 1)) | NoiseTexture \<Rightarrow> grey | Tex n \<Rightarrow> grey)"

section \<open>Properties of the rounding\<close>

declare up.simps [simp del] down.simps [simp del]

lemma up_bounds: "1 \<le> x \<Longrightarrow> 2 powi up x \<le> x \<and> x < 2 powi (up x + 1)"
proof (induction x rule: up.induct)
  case (1 x)
  show ?case
  proof (cases "2 \<le> x")
    case True
    then have "2 powi up (x / 2) \<le> x / 2 \<and> x / 2 < 2 powi (up (x / 2) + 1)"
      using "1.IH" by simp
    then show ?thesis using True by (simp add: up.simps [of x] power_int_add)
  next
    case False
    then show ?thesis using "1.prems" by (simp add: up.simps [of x])
  qed
qed

lemma down_bounds: "0 < x \<Longrightarrow> x < 1 \<Longrightarrow> 2 powi down x \<le> x \<and> x < 2 powi (down x + 1)"
proof (induction x rule: down.induct)
  case (1 x)
  show ?case
  proof (cases "2 * x < 1")
    case True
    then have "2 powi down (2 * x) \<le> 2 * x \<and> 2 * x < 2 powi (down (2 * x) + 1)"
      using "1.IH" "1.prems" by simp
    then show ?thesis using "1.prems" by (simp add: down.simps [of x] power_int_diff power_int_add)
  next
    case False
    then have "down (2 * x) = 0" by (simp add: down.simps [of "2 * x"])
    then show ?thesis using "1.prems" False by (simp add: down.simps [of x] power_int_minus)
  qed
qed

lemma exponent_bounds:
  "x \<noteq> 0 \<Longrightarrow> 2 powi exponent x \<le> \<bar>x\<bar> \<and> \<bar>x\<bar> < 2 powi (exponent x + 1)"
  using up_bounds [of "\<bar>x\<bar>"] down_bounds [of "\<bar>x\<bar>"] by (simp add: exponent_def)

lemma powi_window_unique:
  assumes "2 powi j \<le> (a::real)" "a < 2 powi (j + 1)" "2 powi k \<le> a" "a < 2 powi (k + 1)"
  shows "j = k"
proof (rule ccontr)
  assume "j \<noteq> k"
  then consider "j + 1 \<le> k" | "k + 1 \<le> j" by linarith
  then show False
  proof cases
    case 1
    then have "(2::real) powi (j + 1) \<le> 2 powi k" by (intro power_int_increasing) simp_all
    with assms show False by linarith
  next
    case 2
    then have "(2::real) powi (k + 1) \<le> 2 powi j" by (intro power_int_increasing) simp_all
    with assms show False by linarith
  qed
qed

lemma exponent_eqI:
  assumes "2 powi k \<le> \<bar>x\<bar>" "\<bar>x\<bar> < 2 powi (k + 1)"
  shows "exponent x = k"
proof -
  have pos: "0 < (2::real) powi k" by (rule zero_less_power_int) simp
  have "x \<noteq> 0"
  proof
    assume "x = 0"
    with assms(1) have "(2::real) powi k \<le> 0" by simp
    with pos show False by linarith
  qed
  from exponent_bounds [OF this] assms show ?thesis by (meson powi_window_unique)
qed

lemma ties_even_of_int [simp]: "ties_even (of_int n) = n"
  by (simp add: ties_even_def)

lemma ties_even_floor: "\<lfloor>x\<rfloor> \<le> ties_even x \<and> ties_even x \<le> \<lfloor>x\<rfloor> + 1"
  by (simp add: ties_even_def Let_def)

lemma ties_even_mono:
  assumes "x \<le> y"
  shows "ties_even x \<le> ties_even y"
proof (cases "\<lfloor>x\<rfloor> = \<lfloor>y\<rfloor>")
  case True
  then show ?thesis using assms by (auto simp: ties_even_def Let_def)
next
  case False
  then have "\<lfloor>x\<rfloor> + 1 \<le> \<lfloor>y\<rfloor>" using floor_mono [OF assms] by linarith
  then show ?thesis using ties_even_floor [of x] ties_even_floor [of y] by linarith
qed

lemma ties_even_ge: "of_int n \<le> x \<Longrightarrow> n \<le> ties_even x"
  using ties_even_mono [of "of_int n" x] by simp

lemma ties_even_le: "x \<le> of_int n \<Longrightarrow> ties_even x \<le> n"
  using ties_even_mono [of x "of_int n"] by simp

lemma double_0 [simp]: "double 0 = 0"
  by (simp add: double_def)

lemma double_eval:
  assumes "2 powi k \<le> \<bar>x\<bar>" "\<bar>x\<bar> < 2 powi (k + 1)"
  shows "double x = of_int (ties_even (x / 2 powi (k - 52))) * 2 powi (k - 52)"
proof -
  have "exponent x = k" using assms by (rule exponent_eqI)
  moreover have "x \<noteq> 0"
  proof
    assume "x = 0"
    with assms(1) have "(2::real) powi k \<le> 0" by simp
    moreover have "0 < (2::real) powi k" by (rule zero_less_power_int) simp
    ultimately show False by linarith
  qed
  ultimately show ?thesis by (simp add: double_def)
qed

text \<open>A positive number and its rounding: the scaled significand lies between 2^52 and 2^53.\<close>

lemma double_pos:
  assumes "0 < x"
  defines "e \<equiv> exponent x"
  defines "n \<equiv> ties_even (x / 2 powi (e - 52))"
  shows "double x = of_int n * 2 powi (e - 52)" and "2 ^ 52 \<le> n" and "n \<le> 2 ^ 53"
    and "2 powi e \<le> double x" and "double x \<le> 2 powi (e + 1)"
proof -
  have x0: "x \<noteq> 0" using assms(1) by simp
  have b: "2 powi e \<le> x" "x < 2 powi (e + 1)"
    using exponent_bounds [OF x0] assms(1) by (simp_all add: e_def)
  have u: "0 < (2::real) powi (e - 52)" by (rule zero_less_power_int) simp
  have s1: "(2::real) powi e = 2 ^ 52 * 2 powi (e - 52)"
    by (simp add: power_int_diff)
  have s2: "(2::real) powi (e + 1) = 2 ^ 53 * 2 powi (e - 52)"
    by (simp add: power_int_diff power_int_add)
  show d: "double x = of_int n * 2 powi (e - 52)"
    using x0 by (simp add: double_def n_def e_def)
  have "of_int (2 ^ 52) \<le> x / 2 powi (e - 52)"
    using b(1) u by (simp add: s1 pos_le_divide_eq)
  then show n1: "2 ^ 52 \<le> n" unfolding n_def by (rule ties_even_ge)
  have "x / 2 powi (e - 52) \<le> of_int (2 ^ 53)"
    using b(2) u by (simp add: s2 pos_divide_le_eq)
  then show n2: "n \<le> 2 ^ 53" unfolding n_def by (rule ties_even_le)
  have "(2::real) ^ 52 \<le> of_int n" using n1 by (metis of_int_le_iff of_int_numeral of_int_power)
  then show "2 powi e \<le> double x" using u by (simp add: d s1)
  have "of_int n \<le> (2::real) ^ 53" using n2 by (metis of_int_le_iff of_int_numeral of_int_power)
  then show "double x \<le> 2 powi (e + 1)" using u by (simp add: d s2)
qed

lemma exponent_mono:
  assumes "0 < x" "x \<le> y"
  shows "exponent x \<le> exponent y"
proof (rule ccontr)
  assume "\<not> exponent x \<le> exponent y"
  then have "exponent y + 1 \<le> exponent x" by linarith
  then have "(2::real) powi (exponent y + 1) \<le> 2 powi exponent x"
    by (intro power_int_increasing) simp_all
  moreover have "2 powi exponent x \<le> x" using exponent_bounds [of x] assms(1) by simp
  moreover have "y < 2 powi (exponent y + 1)" using exponent_bounds [of y] assms by simp
  ultimately show False using assms(2) by linarith
qed

lemma double_nonneg: "0 \<le> x \<Longrightarrow> 0 \<le> double x"
proof (cases "x = 0")
  case True
  then show ?thesis by simp
next
  case False
  assume "0 \<le> x"
  with False have x: "0 < x" by simp
  have "0 < (2::real) powi exponent x" by (rule zero_less_power_int) simp
  then show ?thesis using double_pos(4) [OF x] by linarith
qed

lemma double_mono:
  assumes "0 \<le> x" "x \<le> y"
  shows "double x \<le> double y"
proof (cases "x = 0")
  case True
  then show ?thesis using assms double_nonneg [of y] by simp
next
  case False
  then have x: "0 < x" and y: "0 < y" using assms by simp_all
  show ?thesis
  proof (cases "exponent x = exponent y")
    case True
    have u: "0 < (2::real) powi (exponent y - 52)" by (rule zero_less_power_int) simp
    have "x / 2 powi (exponent y - 52) \<le> y / 2 powi (exponent y - 52)"
      using assms(2) u by (simp add: divide_right_mono)
    then have "ties_even (x / 2 powi (exponent y - 52)) \<le> ties_even (y / 2 powi (exponent y - 52))"
      by (rule ties_even_mono)
    then have "(of_int (ties_even (x / 2 powi (exponent y - 52))) :: real)
               \<le> of_int (ties_even (y / 2 powi (exponent y - 52)))" by simp
    then show ?thesis
      using u double_pos(1) [OF x] double_pos(1) [OF y] by (simp add: True mult_right_mono)
  next
    case False
    then have "exponent x + 1 \<le> exponent y" using exponent_mono [OF x assms(2)] by linarith
    then have "(2::real) powi (exponent x + 1) \<le> 2 powi exponent y"
      by (intro power_int_increasing) simp_all
    then show ?thesis using double_pos(5) [OF x] double_pos(4) [OF y] by linarith
  qed
qed

lemma double_powi [simp]: "double (2 powi k) = 2 powi k"
proof -
  have p: "0 < (2::real) powi k" by (rule zero_less_power_int) simp
  have "double (2 powi k) = of_int (ties_even (2 powi k / 2 powi (k - 52))) * 2 powi (k - 52)"
    by (rule double_eval) (use p in \<open>simp_all add: power_int_add\<close>)
  moreover have "(2::real) powi k / 2 powi (k - 52) = of_int (2 ^ 52)"
    by (simp add: power_int_diff)
  ultimately have "double (2 powi k) = of_int (2 ^ 52) * 2 powi (k - 52)"
    by (simp only: ties_even_of_int)
  then show ?thesis by (simp add: power_int_diff)
qed

lemma double_1 [simp]: "double 1 = 1"
  using double_powi [of 0] by simp

lemma double_idem:
  assumes "0 \<le> x"
  shows "double (double x) = double x"
proof (cases "x = 0")
  case True
  then show ?thesis by simp
next
  case False
  then have x: "0 < x" using assms by simp
  define e where "e = exponent x"
  define n where "n = ties_even (x / 2 powi (e - 52))"
  have d: "double x = of_int n * 2 powi (e - 52)" and n1: "2 ^ 52 \<le> n" and n2: "n \<le> 2 ^ 53"
    using double_pos(1-3) [OF x] by (simp_all add: e_def n_def)
  have u: "0 < (2::real) powi (e - 52)" by (rule zero_less_power_int) simp
  show ?thesis
  proof (cases "n = 2 ^ 53")
    case True
    then have "double x = 2 powi (e + 1)" by (simp add: d power_int_diff power_int_add)
    then show ?thesis by simp
  next
    case False
    then have n3: "n < 2 ^ 53" using n2 by linarith
    have r1: "(2::real) ^ 52 \<le> of_int n" using n1 by (metis of_int_le_iff of_int_numeral of_int_power)
    have r2: "of_int n < (2::real) ^ 53" using n3 by (metis of_int_less_iff of_int_numeral of_int_power)
    have s1: "(2::real) powi e = 2 ^ 52 * 2 powi (e - 52)" by (simp add: power_int_diff)
    have s2: "(2::real) powi (e + 1) = 2 ^ 53 * 2 powi (e - 52)"
      by (simp add: power_int_diff power_int_add)
    have pos: "0 \<le> double x" using assms by (rule double_nonneg)
    have lo: "2 powi e \<le> \<bar>double x\<bar>" using r1 u pos by (simp add: d s1)
    have hi: "\<bar>double x\<bar> < 2 powi (e + 1)" using r2 u pos by (simp add: d s2)
    have "double (double x) = of_int (ties_even (double x / 2 powi (e - 52))) * 2 powi (e - 52)"
      using lo hi by (rule double_eval)
    moreover have "double x / 2 powi (e - 52) = of_int n" using u by (simp add: d)
    ultimately show ?thesis by (simp add: d)
  qed
qed

lemmas double_eval_simps = power_int_minus ties_even_def Let_def

lemma double_0_8: "double (4 / 5) = 3602879701896397 / 4503599627370496"
  by (subst double_eval [of "-1"]) (simp_all add: double_eval_simps)

lemma double_0_8_bounds: "0 < double 0.8" "double 0.8 \<le> 1"
  by (simp_all add: double_0_8)



lemma quotient_0_5: "double (0.5 / double 0.8) = 5 / 8"
  apply (simp add: double_0_8)
  apply (subst double_eval [of "-1"])
  apply (simp_all add: double_eval_simps)
  done

lemma quotient_0_4: "double (0.4 / double 0.8) = 1 / 2"
  apply (simp add: double_0_8)
  apply (subst double_eval [of "-2"])
  apply (simp_all add: double_eval_simps)
  done





lemma double_5_8: "double (5 / 8) = 5 / 8"
  by (subst double_eval [of "-1"]) (simp_all add: double_eval_simps)

lemma double_half: "double (1 / 2) = 1 / 2"
  by (subst double_eval [of "-1"]) (simp_all add: double_eval_simps)

lemma quotient_0_5_normal: "double (1 / (2 * double (4 / 5))) = 5 / 8"
  using quotient_0_5 by simp

lemma quotient_0_4_normal: "double (2 / (5 * double (4 / 5))) = 1 / 2"
  using quotient_0_4 by simp

lemmas quotient_simps = quotient_0_5_normal quotient_0_4_normal double_5_8 double_half

section \<open>The failure boundary is a two-state machine\<close>

lemma reset_key_texture:
  "reset_key m t = reset_key m t' \<longleftrightarrow>
     (case t of None \<Rightarrow> ''none'' | Some u \<Rightarrow> u) = (case t' of None \<Rightarrow> ''none'' | Some u \<Rightarrow> u)"
  by (simp add: reset_key_def)

lemma reset_key_model: "reset_key m t = reset_key m' t \<longleftrightarrow> m = m'"
  by (simp add: reset_key_def)

lemma rerender_failed:
  "Failed b \<Longrightarrow> resetKey b = k \<Longrightarrow>
   Healthy (boundary_step (Props m t) b) \<longleftrightarrow> reset_key m t \<noteq> k"
  by (auto simp: Healthy_def Failed_def componentDidUpdate_def)


text \<open>
  C6. The boundary has the two states Healthy (no stored error) and Failed. From Healthy
  it becomes Failed exactly on an error caught from the model subtree. While Failed it
  renders the fallback notice, a re-render with an unchanged key leaves it as it is (no
  retry), and it becomes Healthy again exactly on a re-render whose key differs from the
  stored one. The key is the model URL, a hyphen and the texture URL (or \<open>none\<close>); the
  boundary stores the key of its latest render. So a boundary that failed under model \<open>m\<close>
  and texture \<open>t\<close> recovers on a re-render with another texture URL for the same model, and
  on a re-render with another model URL for the same texture; between no texture and a
  texture URL it recovers unless that URL is the word \<open>none\<close> itself.
\<close>

theorem boundary_two_states:
  "(Healthy b \<longrightarrow> (Failed (boundary_step ev b) \<longleftrightarrow> (\<exists>e. ev = Caught e)))
   \<and> (Failed b \<longrightarrow> (Healthy (boundary_step ev b) \<longleftrightarrow>
          (\<exists>m t. ev = Props m t \<and> reset_key m t \<noteq> resetKey b)))
   \<and> (Failed b \<longrightarrow> render_b b = Fallback_notice)
   \<and> (Healthy b \<longrightarrow> render_b b = Children)
   \<and> (Failed b \<longrightarrow> reset_key m t = resetKey b \<longrightarrow> boundary_step (Props m t) b = b)
   \<and> (Failed b \<longleftrightarrow> \<not> Healthy b)
   \<and> Healthy (constructor_b k)
   \<and> reset_key m t = m @ ''-'' @ (case t of None \<Rightarrow> ''none'' | Some u \<Rightarrow> u)
   \<and> resetKey (constructor_b (reset_key m t)) = reset_key m t
   \<and> resetKey (boundary_step (Props m t) b) = reset_key m t
   \<and> resetKey (boundary_step (Caught e) b) = resetKey b
   \<and> (Failed b \<longrightarrow> resetKey b = reset_key m t \<longrightarrow>
        (Healthy (boundary_step (Props m' t') b) \<longleftrightarrow> reset_key m' t' \<noteq> reset_key m t))
   \<and> (Failed b \<longrightarrow> resetKey b = reset_key m (Some u) \<longrightarrow>
        (Healthy (boundary_step (Props m (Some u')) b) \<longleftrightarrow> u' \<noteq> u))
   \<and> (Failed b \<longrightarrow> resetKey b = reset_key m None \<longrightarrow>
        (Healthy (boundary_step (Props m (Some u')) b) \<longleftrightarrow> u' \<noteq> ''none''))
   \<and> (Failed b \<longrightarrow> resetKey b = reset_key m (Some u) \<longrightarrow>
        (Healthy (boundary_step (Props m None) b) \<longleftrightarrow> u \<noteq> ''none''))
   \<and> (Failed b \<longrightarrow> resetKey b = reset_key m t \<longrightarrow>
        (Healthy (boundary_step (Props m' t) b) \<longleftrightarrow> m' \<noteq> m))"
proof -
  have a1: "Healthy b \<longrightarrow> (Failed (boundary_step ev b) \<longleftrightarrow> (\<exists>e. ev = Caught e))"
    by (cases ev) (auto simp: Healthy_def Failed_def getDerivedStateFromError_def componentDidUpdate_def)
  have a2: "Failed b \<longrightarrow> (Healthy (boundary_step ev b) \<longleftrightarrow>
          (\<exists>m t. ev = Props m t \<and> reset_key m t \<noteq> resetKey b))"
    by (cases ev) (auto simp: Healthy_def Failed_def getDerivedStateFromError_def componentDidUpdate_def)
  have a3: "Failed b \<longrightarrow> render_b b = Fallback_notice"
    and a4: "Healthy b \<longrightarrow> render_b b = Children"
    and a5: "Failed b \<longrightarrow> reset_key m t = resetKey b \<longrightarrow> boundary_step (Props m t) b = b"
    and a6: "Failed b \<longleftrightarrow> \<not> Healthy b"
    and a7: "Healthy (constructor_b k)"
    by (auto simp: Healthy_def Failed_def render_b_def componentDidUpdate_def constructor_b_def)
  have 2: "reset_key m t = m @ ''-'' @ (case t of None \<Rightarrow> ''none'' | Some u \<Rightarrow> u)"
    by (simp add: reset_key_def)
  have 3: "resetKey (constructor_b (reset_key m t)) = reset_key m t"
    "resetKey (boundary_step (Props m t) b) = reset_key m t"
    "resetKey (boundary_step (Caught e) b) = resetKey b"
    by (simp_all add: constructor_b_def componentDidUpdate_def getDerivedStateFromError_def)
  have 4: "Failed b \<longrightarrow> resetKey b = reset_key m t \<longrightarrow>
        (Healthy (boundary_step (Props m' t') b) \<longleftrightarrow> reset_key m' t' \<noteq> reset_key m t)"
    by (simp add: rerender_failed del: boundary_step.simps)
  have 5: "Failed b \<longrightarrow> resetKey b = reset_key m (Some u) \<longrightarrow>
        (Healthy (boundary_step (Props m (Some u')) b) \<longleftrightarrow> u' \<noteq> u)"
    by (simp add: rerender_failed reset_key_texture del: boundary_step.simps)
  have 6: "Failed b \<longrightarrow> resetKey b = reset_key m None \<longrightarrow>
        (Healthy (boundary_step (Props m (Some u')) b) \<longleftrightarrow> u' \<noteq> ''none'')"
    by (simp add: rerender_failed reset_key_texture del: boundary_step.simps)
  have 7: "Failed b \<longrightarrow> resetKey b = reset_key m (Some u) \<longrightarrow>
        (Healthy (boundary_step (Props m None) b) \<longleftrightarrow> u \<noteq> ''none'')"
    by (auto simp add: rerender_failed reset_key_texture simp del: boundary_step.simps)
  have 8: "Failed b \<longrightarrow> resetKey b = reset_key m t \<longrightarrow>
        (Healthy (boundary_step (Props m' t) b) \<longleftrightarrow> m' \<noteq> m)"
    by (simp add: rerender_failed reset_key_model del: boundary_step.simps)
  show ?thesis by (intro conjI; fact)
qed

theorem boundary_two_states_witness:
  "Healthy (constructor_b (reset_key ''a.glb'' (Some ''metal.jpg'')))
   \<and> Failed (boundary_step (Caught (Err ''404'')) (constructor_b (reset_key ''a.glb'' (Some ''metal.jpg''))))
   \<and> render_b (boundary_step (Caught (Err ''404'')) (constructor_b (reset_key ''a.glb'' (Some ''metal.jpg''))))
       = Fallback_notice
   \<and> resetKey (boundary_step (Caught (Err ''404'')) (constructor_b (reset_key ''a.glb'' (Some ''metal.jpg''))))
       = ''a.glb-metal.jpg''
   \<and> Failed (boundary_step (Props ''a.glb'' (Some ''metal.jpg''))
        (boundary_step (Caught (Err ''404'')) (constructor_b (reset_key ''a.glb'' (Some ''metal.jpg'')))))
   \<and> Healthy (boundary_step (Props ''a.glb'' (Some ''uv.jpg''))
        (boundary_step (Caught (Err ''404'')) (constructor_b (reset_key ''a.glb'' (Some ''metal.jpg'')))))
   \<and> Healthy (boundary_step (Props ''a.glb'' None)
        (boundary_step (Caught (Err ''404'')) (constructor_b (reset_key ''a.glb'' (Some ''metal.jpg'')))))
   \<and> Healthy (boundary_step (Props ''b.glb'' (Some ''metal.jpg''))
        (boundary_step (Caught (Err ''404'')) (constructor_b (reset_key ''a.glb'' (Some ''metal.jpg'')))))"
  using boundary_two_states [where b = "constructor_b (reset_key ''a.glb'' (Some ''metal.jpg''))"
      and ev = "Caught (Err ''404'')" and e = "Err ''404''" and m = "''a.glb''"
      and t = "Some ''metal.jpg''" and k = "reset_key ''a.glb'' (Some ''metal.jpg'')"
      and u = "''metal.jpg''" and u' = "''uv.jpg''" and m' = "''b.glb''" and t' = None]
    boundary_two_states [where
          b = "boundary_step (Caught (Err ''404'')) (constructor_b (reset_key ''a.glb'' (Some ''metal.jpg'')))"
      and ev = "Props ''a.glb'' (Some ''metal.jpg'')" and e = "Err ''404''" and m = "''a.glb''"
      and t = "Some ''metal.jpg''" and k = "reset_key ''a.glb'' (Some ''metal.jpg'')"
      and u = "''metal.jpg''" and u' = "''uv.jpg''" and m' = "''b.glb''" and t' = None]
  by (simp add: constructor_b_def reset_key_def getDerivedStateFromError_def componentDidUpdate_def
        Healthy_def Failed_def render_b_def)

section \<open>Folds over the tracked materials\<close>

lemma fold_store_distinct:
  "distinct ms \<Longrightarrow>
   fold (\<lambda>m h. h(m := f m (h m))) ms h x = (if x \<in> set ms then f x (h x) else h x)"
  by (induction ms arbitrary: h) auto

lemma fold_preserves:
  "(\<And>x s. P s \<Longrightarrow> P (f x s)) \<Longrightarrow> P s \<Longrightarrow> P (fold f xs s)"
  by (induction xs arbitrary: s) simp_all

lemma frames_fold_store:
  "fold (\<lambda>m s'. s'\<lparr>mats := (mats s')(m := frame_material d (mats s' m))\<rparr>) ms s
   = s\<lparr>mats := fold (\<lambda>m h. h(m := frame_material d (h m))) ms (mats s)\<rparr>"
  by (induction ms arbitrary: s) simp_all

lemma retarget_fold_store:
  "fold (\<lambda>m s'. s'\<lparr>mats := (mats s')(m := retarget (original_of s' m) (texture s') (mats s' m))\<rparr>) ms s
   = s\<lparr>mats := fold (\<lambda>m h. h(m := retarget (original_of s m) (texture s) (h m))) ms (mats s)\<rparr>"
  by (induction ms arbitrary: s) (simp_all add: original_of_def)

lemma useFrame_materialsRef [simp]: "materialsRef (useFrame d s) = materialsRef s"
  by (simp add: useFrame_def frames_fold_store Let_def split: option.split)

lemma useFrame_mats:
  "distinct (materialsRef s) \<Longrightarrow>
   mats (useFrame d s) m = (if m \<in> set (materialsRef s) then frame_material d (mats s m) else mats s m)"
  by (simp add: useFrame_def frames_fold_store Let_def
        fold_store_distinct [where f = "\<lambda>_. frame_material d"] split: option.split)

lemma texture_change_materialsRef [simp]:
  "materialsRef (texture_change_effect s) = materialsRef s"
  by (simp add: texture_change_effect_def retarget_fold_store)


lemma patch_material_distinct:
  "distinct (materialsRef s) \<Longrightarrow> distinct (materialsRef (patch_material m s))"
  by (simp add: patch_material_def Let_def)

lemma fold_patch_material_distinct:
  "distinct (materialsRef s) \<Longrightarrow> distinct (materialsRef (fold patch_material ms s))"
  by (rule fold_preserves) (rule patch_material_distinct)

lemma visit_object_distinct:
  "distinct (materialsRef s) \<Longrightarrow> distinct (materialsRef (visit_object ob s))"
  by (simp add: visit_object_def Let_def fold_patch_material_distinct split: option.split)

lemma patch_effect_distinct:
  "distinct (materialsRef s) \<Longrightarrow> distinct (materialsRef (patch_effect scene s))"
  unfolding patch_effect_def by (rule fold_preserves) (rule visit_object_distinct)

section \<open>The list of tracked materials never holds a material twice\<close>

lemma patch_material_materialsRef_cases:
  "materialsRef (patch_material m s) = (if m \<in> set (materialsRef s) then materialsRef s else materialsRef s @ [m])"
  by (simp add: patch_material_def Let_def)

lemma compile_materialsRef [simp]: "materialsRef (compile m s) = materialsRef s"
  by (simp add: compile_def)

lemma auto_frame_materialsRef [simp]: "materialsRef (auto_frame c s) = materialsRef s"
  by (simp add: auto_frame_def split: option.split)

lemma texture_effect_materialsRef [simp]: "materialsRef (texture_effect u s) = materialsRef s"
  by (simp add: texture_effect_def Let_def split: option.split)

lemma sticker_effect_materialsRef [simp]: "materialsRef (sticker_effect u s) = materialsRef s"
  by (simp add: sticker_effect_def Let_def split: option.split)

lemma callbacks_materialsRef [simp]:
  "materialsRef (texture_onLoad i t s) = materialsRef s"
  "materialsRef (texture_onError i s) = materialsRef s"
  "materialsRef (sticker_onLoad i t s) = materialsRef s"
  "materialsRef (sticker_onError i s) = materialsRef s"
  by (simp_all add: texture_onLoad_def texture_onError_def sticker_onLoad_def sticker_onError_def)

lemma step_distinct:
  "distinct (materialsRef s) \<Longrightarrow> distinct (materialsRef (step ev s))"
  by (cases ev) (simp_all add: patch_effect_distinct)

lemma run_distinct:
  "distinct (materialsRef s) \<Longrightarrow> distinct (materialsRef (run evs s))"
  unfolding run_def by (rule fold_preserves) (rule step_distinct)

lemma mount_distinct [simp]: "distinct (materialsRef (mount store))"
  by (simp add: mount_def)

lemma reachable_distinct: "distinct (materialsRef (run evs (mount store)))"
  by (simp add: run_distinct)


lemma frames_materialsRef [simp]: "materialsRef (fold useFrame ds s) = materialsRef s"
  by (induction ds arbitrary: s) simp_all


lemmas eval_defs = run_def mount_def patch_effect_def visit_object_def patch_material_def
  install_hook_def default_pbr_def record_original_def compile_def run_hook_def
  texture_change_effect_def retarget_def original_of_def useFrame_def frame_material_def
  authored_def Let_def one_mesh_scene_def plain_store_def



section \<open>The cross-fade animator\<close>

lemma retarget_progress [simp]: "transitionProgress (retarget orig tex mat) = Some 0"
  by (simp add: retarget_def Let_def split: option.split)





lemma advance_bounds:
  assumes p: "0 \<le> p" "p \<le> 1" "double p = p" and d: "0 \<le> d"
  defines "q \<equiv> min 1 (double (p + double (d / double 0.8)))"
  shows "p \<le> q" "q \<le> 1" "double q = q" "0 \<le> q" "double 0.8 \<le> d \<Longrightarrow> q = 1"
proof -
  let ?e = "double (d / double 0.8)"
  have c: "0 < double 0.8" by (rule double_0_8_bounds)
  have e0: "0 \<le> ?e" using d c by (intro double_nonneg) simp
  have "double p \<le> double (p + ?e)" using p(1) e0 by (intro double_mono) simp_all
  then have le: "p \<le> double (p + ?e)" by (simp only: p(3))
  show "p \<le> q" using le p(2) by (simp add: q_def)
  show "q \<le> 1" by (simp add: q_def)
  have "double (double (p + ?e)) = double (p + ?e)"
    using p(1) e0 by (intro double_idem) simp
  then show "double q = q" by (simp add: q_def min_def)
  show "0 \<le> q" using \<open>p \<le> q\<close> p(1) by simp
  show "q = 1" if big: "double 0.8 \<le> d"
  proof -
    have "1 \<le> d / double 0.8" using big c by simp
    then have "double 1 \<le> ?e" by (intro double_mono) simp_all
    then have "1 \<le> p + ?e" using p(1) by simp
    then have "double 1 \<le> double (p + ?e)" by (intro double_mono) simp_all
    then show ?thesis by (simp add: q_def)
  qed
qed


lemma fold_snoc: "fold f (xs @ [x]) s = f x (fold f xs s)"
  by simp









section \<open>The material patch effect\<close>







lemma patched_after [simp]: "patched (record_original (default_pbr (install_hook mat)))"
  by (simp add: record_original_def default_pbr_def install_hook_def Let_def)





lemma patch_material_frame [simp]:
  "stickerTargetRef (patch_material m s) = stickerTargetRef s"
  "castShadow (patch_material m s) = castShadow s"
  "receiveShadow (patch_material m s) = receiveShadow s"
  by (simp_all add: patch_material_def Let_def)

lemma fold_patch_material_frame [simp]:
  "stickerTargetRef (fold patch_material ms s) = stickerTargetRef s"
  "castShadow (fold patch_material ms s) = castShadow s"
  "receiveShadow (fold patch_material ms s) = receiveShadow s"
  by (induction ms arbitrary: s) simp_all

lemma settled_material_cong:
  "originalMaps s' = originalMaps s \<Longrightarrow> materialsRef s' = materialsRef s \<Longrightarrow> mats s' = mats s \<Longrightarrow>
   settled_material m s' = settled_material m s"
  by (simp add: settled_material_def)












lemma fold_union:
  assumes "\<And>x s. g (f x s) = g s \<union> A x"
  shows "g (fold f xs s) = g s \<union> (\<Union>x\<in>set xs. A x)"
  by (induction xs arbitrary: s) (auto simp: assms)






lemma patch_material_tracked:
  "set (materialsRef (patch_material m s)) = set (materialsRef s) \<union> {m}"
  by (auto simp: patch_material_materialsRef_cases)

lemma fold_patch_material_tracked:
  "set (materialsRef (fold patch_material ms s)) = set (materialsRef s) \<union> set ms"
  using fold_union [where f = patch_material and g = "\<lambda>s. set (materialsRef s)" and A = "\<lambda>m. {m}"
      and xs = ms and s = s]
  by (simp add: patch_material_tracked)

lemma visit_object_tracked:
  "set (materialsRef (visit_object ob s)) = set (materialsRef s) \<union> set (object_materials ob)"
  by (simp add: visit_object_def object_materials_def Let_def fold_patch_material_tracked
      split: option.split)

lemma patch_effect_tracked:
  "set (materialsRef (patch_effect scene s)) = set (materialsRef s) \<union> set (scene_materials scene)"
  using fold_union [where f = visit_object and g = "\<lambda>s. set (materialsRef s)"
      and A = "\<lambda>ob. set (object_materials ob)" and xs = "traverse scene" and s = s]
  by (simp add: visit_object_tracked patch_effect_def scene_materials_def)

lemma patch_material_prefix: "prefix (materialsRef s) (materialsRef (patch_material m s))"
  by (simp add: patch_material_materialsRef_cases)

lemma fold_patch_material_prefix:
  "materialsRef s0 = l \<Longrightarrow> prefix l (materialsRef (fold patch_material ms s0))"
  by (induction ms arbitrary: s0 l) (auto intro: prefix_order.trans patch_material_prefix)

lemma visit_object_prefix: "prefix (materialsRef s) (materialsRef (visit_object ob s))"
  by (simp add: visit_object_def Let_def fold_patch_material_prefix split: option.split)

lemma patch_effect_prefix: "prefix (materialsRef s) (materialsRef (patch_effect scene s))"
proof -
  have "prefix (materialsRef s0) (materialsRef (fold visit_object obs s0))" for obs s0
    by (induction obs arbitrary: s0) (auto intro: prefix_order.trans visit_object_prefix)
  then show ?thesis by (simp add: patch_effect_def)
qed








section \<open>Each frame updates each tracked material once\<close>

text \<open>
  C10. In every state reachable from the mount the list of tracked materials is distinct: a
  material is appended only when it is not yet a member. Hence a rendered frame applies the
  per-material update exactly once to each tracked material and leaves all others alone.
\<close>

theorem tracked_materials_distinct:
  "distinct (materialsRef (run evs (mount store)))
   \<and> materialsRef (patch_material a s) =
       (if a \<in> set (materialsRef s) then materialsRef s else materialsRef s @ [a])
   \<and> (\<forall>m\<in>set (materialsRef (run evs (mount store))).
        mats (useFrame delta (run evs (mount store))) m
          = frame_material delta (mats (run evs (mount store)) m))
   \<and> (\<forall>m. m \<notin> set (materialsRef (run evs (mount store))) \<longrightarrow>
        mats (useFrame delta (run evs (mount store))) m = mats (run evs (mount store)) m)"
  by (simp add: reachable_distinct useFrame_mats patch_material_materialsRef_cases)

theorem tracked_materials_distinct_witness:
  "materialsRef (run [PatchEffect one_mesh_scene, PatchEffect one_mesh_scene, Compile 0, TextureChangeEffect]
      (mount plain_store)) = [0]
   \<and> transitionProgress (mats (useFrame 0.4
        (run [PatchEffect one_mesh_scene, PatchEffect one_mesh_scene, Compile 0, TextureChangeEffect]
          (mount plain_store))) 0) = Some (1 / 2)"
  using tracked_materials_distinct [of
      "[PatchEffect one_mesh_scene, PatchEffect one_mesh_scene, Compile 0, TextureChangeEffect]"
      plain_store 0 "mount plain_store" "0.4"]
  by (simp add: eval_defs quotient_simps)

section \<open>What a change of model leaves behind\<close>

lemma step_prefix: "prefix (materialsRef s) (materialsRef (step ev s))"
  by (cases ev) (simp_all add: patch_effect_prefix)

lemma run_prefix: "prefix (materialsRef s) (materialsRef (run evs s))"
proof -
  have "prefix (materialsRef s0) (materialsRef (fold step evs s0))" for s0
    by (induction evs arbitrary: s0) (auto intro: prefix_order.trans step_prefix)
  then show ?thesis by (simp add: run_def)
qed

text \<open>
  C9, as the code has it. The list of tracked materials is never emptied or replaced: the
  patch effect for a new scene keeps what the list held, in place, and appends the mesh
  materials of the new scene that were not yet tracked; no other event changes the list
  except by such appending.
\<close>

theorem tracked_materials_append_only:
  "set (materialsRef (patch_effect scene s)) = set (materialsRef s) \<union> set (scene_materials scene)
   \<and> prefix (materialsRef s) (materialsRef (patch_effect scene s))
   \<and> prefix (materialsRef s) (materialsRef (run evs s))"
  by (simp add: patch_effect_tracked patch_effect_prefix run_prefix)

theorem tracked_materials_append_only_witness:
  "set (materialsRef (patch_effect other_scene (patch_effect one_mesh_scene (mount plain_store)))) = {0, 1}
   \<and> materialsRef (patch_effect one_mesh_scene (mount plain_store)) = [0]
   \<and> scene_materials other_scene = [1]"
  using tracked_materials_append_only [of other_scene "patch_effect one_mesh_scene (mount plain_store)" "[]"]
  by (auto simp: eval_defs other_scene_def scene_materials_def object_materials_def)

text \<open>
  The claim as stated fails: after the model with material 0 is replaced by the model whose
  only material is 1, the list still holds material 0.
\<close>

theorem tracked_materials_stale_counterexample:
  "materialsRef (run [PatchEffect one_mesh_scene, PatchEffect other_scene] (mount plain_store)) = [0, 1]
   \<and> scene_materials other_scene = [1]
   \<and> \<not> set (materialsRef (run [PatchEffect one_mesh_scene, PatchEffect other_scene] (mount plain_store)))
          \<subseteq> set (scene_materials other_scene)"
  by (simp add: eval_defs other_scene_def scene_materials_def object_materials_def)

section \<open>The decal and its target mesh\<close>

lemma visit_object_target:
  "stickerTargetRef (visit_object ob s) =
     (case stickerTargetRef s of
        Some t \<Rightarrow> Some t
      | None \<Rightarrow> if mesh ob = None then None else Some (ident ob))"
  by (simp add: visit_object_def Let_def split: option.split)

lemma fold_visit_target:
  "stickerTargetRef (fold visit_object obs s) =
     (case stickerTargetRef s of
        Some t \<Rightarrow> Some t
      | None \<Rightarrow> (case map ident (filter (\<lambda>ob. mesh ob \<noteq> None) obs) of [] \<Rightarrow> None | i # _ \<Rightarrow> Some i))"
  by (induction obs arbitrary: s) (simp_all add: visit_object_target split: option.split)

lemma patch_effect_target:
  "stickerTargetRef (patch_effect scene s) =
     (case stickerTargetRef s of Some t \<Rightarrow> Some t | None \<Rightarrow> first_mesh scene)"
  by (simp add: patch_effect_def fold_visit_target first_mesh_def scene_meshes_def split: option.split)

lemma first_load_target: "stickerTargetRef (patch_effect scene (mount store)) = first_mesh scene"
  by (simp add: patch_effect_target mount_def)

lemma render_decal_present:
  "stickerTexture s = Some tex \<Longrightarrow> stickerTargetRef s = Some target \<Longrightarrow>
   render_decal (Some t) s =
     Some \<lparr>d_mesh = target, d_position = t_position t, d_rotation = radians (t_rotation t),
           d_scale = t_scale t, d_map = tex\<rparr>"
  by (simp add: render_decal_def)

lemma render_decal_absent:
  "stickerTexture s = None \<or> t = None \<or> stickerTargetRef s = None \<Longrightarrow> render_decal t s = None"
  by (auto simp: render_decal_def split: option.split)

lemma step_target_fixed:
  "stickerTargetRef s = Some target \<Longrightarrow> stickerTargetRef (step ev s) = Some target"
  by (cases ev)
     (simp_all add: patch_effect_target texture_change_effect_def retarget_fold_store useFrame_def
        frames_fold_store compile_def auto_frame_def texture_effect_def sticker_effect_def
        texture_onLoad_def texture_onError_def sticker_onLoad_def sticker_onError_def Let_def
        split: option.split)

lemma target_fixed:
  "stickerTargetRef s = Some target \<Longrightarrow> stickerTargetRef (run evs s) = Some target"
  unfolding run_def
  by (rule fold_preserves [where P = "\<lambda>s. stickerTargetRef s = Some target"])
     (rule step_target_fixed)

text \<open>
  C8. For the first model after the mount the target is the first mesh of the traversal
  (\<open>first_load_target\<close>), it never changes afterwards (\<open>target_fixed\<close>), and the decal is
  rendered with the position, the rotation in radians and the scale of the transform exactly
  when texture, transform and target are present (\<open>render_decal_present\<close>,
  \<open>render_decal_absent\<close>). But line 164 assigns the target only while the ref is empty and
  nothing empties it: after a change of model the decal is still given the mesh of the
  previous model, which is not part of the loaded scene graph.
\<close>

theorem decal_target_stale:
  "stickerTargetRef (run [PatchEffect one_mesh_scene, PatchEffect other_scene] (mount plain_store)) = Some 0
   \<and> first_mesh other_scene = Some 10
   \<and> scene_meshes other_scene = [10]
   \<and> map_option d_mesh (render_decal (Some t)
        (run [PatchEffect one_mesh_scene, PatchEffect other_scene, StickerEffect (Some ''s.png''),
              StickerLoaded 0 (Tex 7)] (mount plain_store))) = Some 0"
  by (simp add: eval_defs other_scene_def first_mesh_def scene_meshes_def render_decal_def
      sticker_effect_def sticker_onLoad_def live_def cancel_def)

section \<open>Loads, cancellation and failure\<close>

text \<open>Fields the patch effect, the texture-change effect, a compile and a frame never touch.\<close>

lemma patch_material_loads [simp]:
  "textureLoads (patch_material m s) = textureLoads s"
  "textureCleanup (patch_material m s) = textureCleanup s"
  "stickerLoads (patch_material m s) = stickerLoads s"
  "stickerCleanup (patch_material m s) = stickerCleanup s"
  "texture (patch_material m s) = texture s"
  "stickerTexture (patch_material m s) = stickerTexture s"
  "console (patch_material m s) = console s"
  "groupRef (patch_material m s) = groupRef s"
  by (simp_all add: patch_material_def Let_def)

lemma fold_patch_material_loads [simp]:
  "textureLoads (fold patch_material ms s) = textureLoads s"
  "textureCleanup (fold patch_material ms s) = textureCleanup s"
  "stickerLoads (fold patch_material ms s) = stickerLoads s"
  "stickerCleanup (fold patch_material ms s) = stickerCleanup s"
  "texture (fold patch_material ms s) = texture s"
  "stickerTexture (fold patch_material ms s) = stickerTexture s"
  "console (fold patch_material ms s) = console s"
  "groupRef (fold patch_material ms s) = groupRef s"
  by (induction ms arbitrary: s) simp_all

lemma visit_object_loads [simp]:
  "textureLoads (visit_object ob s) = textureLoads s"
  "textureCleanup (visit_object ob s) = textureCleanup s"
  "stickerLoads (visit_object ob s) = stickerLoads s"
  "stickerCleanup (visit_object ob s) = stickerCleanup s"
  "texture (visit_object ob s) = texture s"
  "stickerTexture (visit_object ob s) = stickerTexture s"
  "console (visit_object ob s) = console s"
  "groupRef (visit_object ob s) = groupRef s"
  by (simp_all add: visit_object_def Let_def split: option.split)

lemma patch_effect_loads [simp]:
  "textureLoads (patch_effect scene s) = textureLoads s"
  "textureCleanup (patch_effect scene s) = textureCleanup s"
  "stickerLoads (patch_effect scene s) = stickerLoads s"
  "stickerCleanup (patch_effect scene s) = stickerCleanup s"
  "texture (patch_effect scene s) = texture s"
  "stickerTexture (patch_effect scene s) = stickerTexture s"
  "console (patch_effect scene s) = console s"
  "groupRef (patch_effect scene s) = groupRef s"
proof -
  have "textureLoads (fold visit_object obs s0) = textureLoads s0
    \<and> textureCleanup (fold visit_object obs s0) = textureCleanup s0
    \<and> stickerLoads (fold visit_object obs s0) = stickerLoads s0
    \<and> stickerCleanup (fold visit_object obs s0) = stickerCleanup s0
    \<and> texture (fold visit_object obs s0) = texture s0
    \<and> stickerTexture (fold visit_object obs s0) = stickerTexture s0
    \<and> console (fold visit_object obs s0) = console s0
    \<and> groupRef (fold visit_object obs s0) = groupRef s0" for obs s0
    by (induction obs arbitrary: s0) simp_all
  then show
    "textureLoads (patch_effect scene s) = textureLoads s"
    "textureCleanup (patch_effect scene s) = textureCleanup s"
    "stickerLoads (patch_effect scene s) = stickerLoads s"
    "stickerCleanup (patch_effect scene s) = stickerCleanup s"
    "texture (patch_effect scene s) = texture s"
    "stickerTexture (patch_effect scene s) = stickerTexture s"
    "console (patch_effect scene s) = console s"
    "groupRef (patch_effect scene s) = groupRef s"
    by (simp_all add: patch_effect_def)
qed

lemma texture_change_loads [simp]:
  "textureLoads (texture_change_effect s) = textureLoads s"
  "textureCleanup (texture_change_effect s) = textureCleanup s"
  "stickerLoads (texture_change_effect s) = stickerLoads s"
  "stickerCleanup (texture_change_effect s) = stickerCleanup s"
  "console (texture_change_effect s) = console s"
  by (simp_all add: texture_change_effect_def retarget_fold_store)

lemma useFrame_loads [simp]:
  "textureLoads (useFrame d s) = textureLoads s"
  "textureCleanup (useFrame d s) = textureCleanup s"
  "stickerLoads (useFrame d s) = stickerLoads s"
  "stickerCleanup (useFrame d s) = stickerCleanup s"
  "console (useFrame d s) = console s"
  by (simp_all add: useFrame_def frames_fold_store Let_def split: option.split)

lemma compile_loads [simp]:
  "textureLoads (compile m s) = textureLoads s"
  "textureCleanup (compile m s) = textureCleanup s"
  "stickerLoads (compile m s) = stickerLoads s"
  "stickerCleanup (compile m s) = stickerCleanup s"
  "console (compile m s) = console s"
  by (simp_all add: compile_def)

lemma auto_frame_loads [simp]:
  "textureLoads (auto_frame c s) = textureLoads s"
  "textureCleanup (auto_frame c s) = textureCleanup s"
  "stickerLoads (auto_frame c s) = stickerLoads s"
  "stickerCleanup (auto_frame c s) = stickerCleanup s"
  "console (auto_frame c s) = console s"
  by (simp_all add: auto_frame_def split: option.split)

lemma callbacks_loads [simp]:
  "textureLoads (texture_onLoad i t s) = textureLoads s"
  "textureCleanup (texture_onLoad i t s) = textureCleanup s"
  "stickerLoads (texture_onLoad i t s) = stickerLoads s"
  "stickerCleanup (texture_onLoad i t s) = stickerCleanup s"
  "textureLoads (texture_onError i s) = textureLoads s"
  "textureCleanup (texture_onError i s) = textureCleanup s"
  "stickerLoads (texture_onError i s) = stickerLoads s"
  "stickerCleanup (texture_onError i s) = stickerCleanup s"
  "textureLoads (sticker_onLoad i t s) = textureLoads s"
  "textureCleanup (sticker_onLoad i t s) = textureCleanup s"
  "stickerLoads (sticker_onLoad i t s) = stickerLoads s"
  "stickerCleanup (sticker_onLoad i t s) = stickerCleanup s"
  "textureLoads (sticker_onError i s) = textureLoads s"
  "textureCleanup (sticker_onError i s) = textureCleanup s"
  "stickerLoads (sticker_onError i s) = stickerLoads s"
  "stickerCleanup (sticker_onError i s) = stickerCleanup s"
  by (simp_all add: texture_onLoad_def texture_onError_def sticker_onLoad_def sticker_onError_def)

lemma effects_other_slot [simp]:
  "stickerLoads (texture_effect u s) = stickerLoads s"
  "stickerCleanup (texture_effect u s) = stickerCleanup s"
  "textureLoads (sticker_effect u s) = textureLoads s"
  "textureCleanup (sticker_effect u s) = textureCleanup s"
  by (simp_all add: texture_effect_def sticker_effect_def Let_def split: option.split)

lemma cancel_length [simp]: "length (cancel c rs) = length rs"
  by (simp add: cancel_def split: option.split)

lemma cancel_nth:
  "i < length rs \<Longrightarrow> cancelled (cancel c rs ! i) = (cancelled (rs ! i) \<or> c = Some i)"
  "i < length rs \<Longrightarrow> req_url (cancel c rs ! i) = req_url (rs ! i)"
  by (auto simp: cancel_def nth_list_update split: option.split)

lemma texture_effect_slot:
  "textureLoads (texture_effect url s) =
     cancel (textureCleanup s) (textureLoads s)
       @ (case url of None \<Rightarrow> [] | Some u \<Rightarrow> if u = [] then [] else [\<lparr>req_url = u, cancelled = False\<rparr>])"
  "textureCleanup (texture_effect url s) =
     (if issues_load url then Some (length (textureLoads s)) else None)"
  by (simp_all add: texture_effect_def issues_load_def Let_def split: option.split)

lemma sticker_effect_slot:
  "stickerLoads (sticker_effect url s) =
     cancel (stickerCleanup s) (stickerLoads s)
       @ (case url of None \<Rightarrow> [] | Some u \<Rightarrow> if u = [] then [] else [\<lparr>req_url = u, cancelled = False\<rparr>])"
  "stickerCleanup (sticker_effect url s) =
     (if issues_load url then Some (length (stickerLoads s)) else None)"
  by (simp_all add: sticker_effect_def issues_load_def Let_def split: option.split)

text \<open>One slot, abstractly: what a change of the URL does to the loads and the cleanup.\<close>

lemma change_issues:
  "u \<noteq> [] \<Longrightarrow> pending u (cancel c rs @ [\<lparr>req_url = u, cancelled = False\<rparr>]) (Some (length rs)) (length rs)"
  by (simp add: pending_def nth_append)

lemma change_supersedes:
  "pending u rs c i \<Longrightarrow> superseded u (cancel c rs @ extra) i"
  by (auto simp: pending_def superseded_def nth_append cancel_nth)

lemma change_keeps_superseded:
  "superseded u rs i \<Longrightarrow> superseded u (cancel c rs @ extra) i"
  by (auto simp: superseded_def nth_append cancel_nth)

lemma superseded_pending: "superseded u rs i \<Longrightarrow> pending u rs c i"
  by (simp add: superseded_def pending_def)

lemma change_slot_ok:
  "slot_ok rs c \<Longrightarrow> slot_ok (cancel c rs) None"
  "slot_ok rs c \<Longrightarrow> slot_ok (cancel c rs @ [\<lparr>req_url = u, cancelled = False\<rparr>]) (Some (length rs))"
  by (auto simp: slot_ok_def list_all_iff nth_append cancel_nth)

lemma slot_ok_live: "slot_ok rs c \<Longrightarrow> live rs i \<Longrightarrow> c = Some i \<and> Suc i = length rs"
  by (auto simp: slot_ok_def live_def list_all_iff)

lemma superseded_not_live: "superseded u rs i \<Longrightarrow> \<not> live rs i"
  by (simp add: superseded_def live_def)

lemma step_texture_pending:
  "pending u (textureLoads s) (textureCleanup s) i \<Longrightarrow>
   pending u (textureLoads (step ev s)) (textureCleanup (step ev s)) i"
  by (cases ev) (simp_all add: texture_effect_slot change_supersedes superseded_pending)

lemma step_texture_superseded:
  "superseded u (textureLoads s) i \<Longrightarrow> superseded u (textureLoads (step ev s)) i"
  by (cases ev) (simp_all add: texture_effect_slot change_keeps_superseded)

lemma step_sticker_pending:
  "pending u (stickerLoads s) (stickerCleanup s) i \<Longrightarrow>
   pending u (stickerLoads (step ev s)) (stickerCleanup (step ev s)) i"
  by (cases ev) (simp_all add: sticker_effect_slot change_supersedes superseded_pending)

lemma step_sticker_superseded:
  "superseded u (stickerLoads s) i \<Longrightarrow> superseded u (stickerLoads (step ev s)) i"
  by (cases ev) (simp_all add: sticker_effect_slot change_keeps_superseded)

lemma step_slots_ok:
  "slot_ok (textureLoads s) (textureCleanup s) \<Longrightarrow>
   slot_ok (textureLoads (step ev s)) (textureCleanup (step ev s))"
  "slot_ok (stickerLoads s) (stickerCleanup s) \<Longrightarrow>
   slot_ok (stickerLoads (step ev s)) (stickerCleanup (step ev s))"
  by (cases ev; simp add: texture_effect_slot sticker_effect_slot change_slot_ok issues_load_def
        split: option.split)+

lemma run_append: "run (xs @ ys) s = run ys (run xs s)"
  by (simp add: run_def)

lemma run_Cons: "run (ev # evs) s = run evs (step ev s)"
  by (simp add: run_def)

lemma run_texture_pending:
  "pending u (textureLoads s) (textureCleanup s) i \<Longrightarrow>
   pending u (textureLoads (run evs s)) (textureCleanup (run evs s)) i"
  unfolding run_def
  by (rule fold_preserves [where P = "\<lambda>s. pending u (textureLoads s) (textureCleanup s) i"])
     (rule step_texture_pending)

lemma run_texture_superseded:
  "superseded u (textureLoads s) i \<Longrightarrow> superseded u (textureLoads (run evs s)) i"
  unfolding run_def
  by (rule fold_preserves [where P = "\<lambda>s. superseded u (textureLoads s) i"])
     (rule step_texture_superseded)

lemma run_sticker_pending:
  "pending u (stickerLoads s) (stickerCleanup s) i \<Longrightarrow>
   pending u (stickerLoads (run evs s)) (stickerCleanup (run evs s)) i"
  unfolding run_def
  by (rule fold_preserves [where P = "\<lambda>s. pending u (stickerLoads s) (stickerCleanup s) i"])
     (rule step_sticker_pending)

lemma run_sticker_superseded:
  "superseded u (stickerLoads s) i \<Longrightarrow> superseded u (stickerLoads (run evs s)) i"
  unfolding run_def
  by (rule fold_preserves [where P = "\<lambda>s. superseded u (stickerLoads s) i"])
     (rule step_sticker_superseded)

lemma reachable_slots_ok:
  "slot_ok (textureLoads (run evs (mount store))) (textureCleanup (run evs (mount store)))"
  "slot_ok (stickerLoads (run evs (mount store))) (stickerCleanup (run evs (mount store)))"
proof -
  have t: "slot_ok (textureLoads (mount store)) (textureCleanup (mount store))"
    and k: "slot_ok (stickerLoads (mount store)) (stickerCleanup (mount store))"
    by (simp_all add: mount_def slot_ok_def)
  show "slot_ok (textureLoads (run evs (mount store))) (textureCleanup (run evs (mount store)))"
    unfolding run_def
    by (rule fold_preserves [where P = "\<lambda>s. slot_ok (textureLoads s) (textureCleanup s)"])
       (rule step_slots_ok, assumption, rule t)
  show "slot_ok (stickerLoads (run evs (mount store))) (stickerCleanup (run evs (mount store)))"
    unfolding run_def
    by (rule fold_preserves [where P = "\<lambda>s. slot_ok (stickerLoads s) (stickerCleanup s)"])
       (rule step_slots_ok, assumption, rule k)
qed

lemma texture_superseded_after_change:
  assumes "u \<noteq> []"
  shows "superseded u
           (textureLoads (run ([TextureEffect (Some u)] @ evs2 @ [TextureEffect url'] @ evs3) s))
           (length (textureLoads s))"
proof -
  let ?i = "length (textureLoads s)"
  let ?s1 = "step (TextureEffect (Some u)) s"
  have "pending u (textureLoads ?s1) (textureCleanup ?s1) ?i"
    using assms by (simp add: texture_effect_slot issues_load_def change_issues)
  then have "pending u (textureLoads (run evs2 ?s1)) (textureCleanup (run evs2 ?s1)) ?i"
    by (rule run_texture_pending)
  then have "superseded u (textureLoads (step (TextureEffect url') (run evs2 ?s1))) ?i"
    by (simp add: texture_effect_slot change_supersedes)
  then have "superseded u (textureLoads (run evs3 (step (TextureEffect url') (run evs2 ?s1)))) ?i"
    by (rule run_texture_superseded)
  then show ?thesis by (simp add: run_append run_Cons)
qed

lemma sticker_superseded_after_change:
  assumes "u \<noteq> []"
  shows "superseded u
           (stickerLoads (run ([StickerEffect (Some u)] @ evs2 @ [StickerEffect url'] @ evs3) s))
           (length (stickerLoads s))"
proof -
  let ?i = "length (stickerLoads s)"
  let ?s1 = "step (StickerEffect (Some u)) s"
  have "pending u (stickerLoads ?s1) (stickerCleanup ?s1) ?i"
    using assms by (simp add: sticker_effect_slot issues_load_def change_issues)
  then have "pending u (stickerLoads (run evs2 ?s1)) (stickerCleanup (run evs2 ?s1)) ?i"
    by (rule run_sticker_pending)
  then have "superseded u (stickerLoads (step (StickerEffect url') (run evs2 ?s1))) ?i"
    by (simp add: sticker_effect_slot change_supersedes)
  then have "superseded u (stickerLoads (run evs3 (step (StickerEffect url') (run evs2 ?s1)))) ?i"
    by (rule run_sticker_superseded)
  then show ?thesis by (simp add: run_append run_Cons)
qed

lemmas load_eval_defs = run_def mount_def texture_effect_def sticker_effect_def cancel_def live_def
  texture_onLoad_def texture_onError_def sticker_onLoad_def sticker_onError_def

text \<open>
  C2. Let a change of the texture URL issue a load for \<open>u\<close>, and let the texture URL change
  again later, with any events before, between and after. Then in the resulting state the
  success callback and the error callback of that load both leave the component state as it
  is. The same holds for the sticker slot. Moreover, in every reachable state a callback
  that changes the state at all belongs to the most recently issued load of its slot, the
  one whose cleanup is still pending.
\<close>

theorem stale_load_never_committed:
  fixes evs1 evs2 evs3 evs :: "event list" and store :: "mat_id \<Rightarrow> material"
    and url' :: "string option"
  assumes "u \<noteq> []"
  defines "s0 \<equiv> run evs1 (mount store)"
  defines "st \<equiv> run ([TextureEffect (Some u)] @ evs2 @ [TextureEffect url'] @ evs3) s0"
  defines "sk \<equiv> run ([StickerEffect (Some u)] @ evs2 @ [StickerEffect url'] @ evs3) s0"
  defines "s \<equiv> run evs (mount store)"
  shows "req_url (textureLoads st ! length (textureLoads s0)) = u
       \<and> step (TextureLoaded (length (textureLoads s0)) t) st = st
       \<and> step (TextureFailed (length (textureLoads s0))) st = st
       \<and> req_url (stickerLoads sk ! length (stickerLoads s0)) = u
       \<and> step (StickerLoaded (length (stickerLoads s0)) t) sk = sk
       \<and> step (StickerFailed (length (stickerLoads s0))) sk = sk
       \<and> (step (TextureLoaded i t) s \<noteq> s \<or> step (TextureFailed i) s \<noteq> s
            \<longrightarrow> Suc i = length (textureLoads s) \<and> textureCleanup s = Some i)
       \<and> (step (StickerLoaded i t) s \<noteq> s \<or> step (StickerFailed i) s \<noteq> s
            \<longrightarrow> Suc i = length (stickerLoads s) \<and> stickerCleanup s = Some i)"
proof -
  have a: "superseded u (textureLoads st) (length (textureLoads s0))"
    unfolding st_def using assms(1) by (rule texture_superseded_after_change)
  have b: "superseded u (stickerLoads sk) (length (stickerLoads s0))"
    unfolding sk_def using assms(1) by (rule sticker_superseded_after_change)
  have c: "live (textureLoads s) i \<Longrightarrow> Suc i = length (textureLoads s) \<and> textureCleanup s = Some i"
    and d: "live (stickerLoads s) i \<Longrightarrow> Suc i = length (stickerLoads s) \<and> stickerCleanup s = Some i"
    using reachable_slots_ok [of evs store] slot_ok_live unfolding s_def by blast+
  have dead_t: "\<not> live (textureLoads st) (length (textureLoads s0))"
    using a by (rule superseded_not_live)
  have dead_k: "\<not> live (stickerLoads sk) (length (stickerLoads s0))"
    using b by (rule superseded_not_live)
  have 1: "req_url (textureLoads st ! length (textureLoads s0)) = u"
    using a by (simp add: superseded_def)
  have 2: "step (TextureLoaded (length (textureLoads s0)) t) st = st"
    using dead_t by (simp add: texture_onLoad_def)
  have 3: "step (TextureFailed (length (textureLoads s0))) st = st"
    using dead_t by (simp add: texture_onError_def)
  have 4: "req_url (stickerLoads sk ! length (stickerLoads s0)) = u"
    using b by (simp add: superseded_def)
  have 5: "step (StickerLoaded (length (stickerLoads s0)) t) sk = sk"
    using dead_k by (simp add: sticker_onLoad_def)
  have 6: "step (StickerFailed (length (stickerLoads s0))) sk = sk"
    using dead_k by (simp add: sticker_onError_def)
  have 7: "step (TextureLoaded i t) s \<noteq> s \<or> step (TextureFailed i) s \<noteq> s
            \<longrightarrow> Suc i = length (textureLoads s) \<and> textureCleanup s = Some i"
  proof
    assume "step (TextureLoaded i t) s \<noteq> s \<or> step (TextureFailed i) s \<noteq> s"
    then have "live (textureLoads s) i"
      by (cases "live (textureLoads s) i") (simp_all add: texture_onLoad_def texture_onError_def)
    then show "Suc i = length (textureLoads s) \<and> textureCleanup s = Some i" by (rule c)
  qed
  have 8: "step (StickerLoaded i t) s \<noteq> s \<or> step (StickerFailed i) s \<noteq> s
            \<longrightarrow> Suc i = length (stickerLoads s) \<and> stickerCleanup s = Some i"
  proof
    assume "step (StickerLoaded i t) s \<noteq> s \<or> step (StickerFailed i) s \<noteq> s"
    then have "live (stickerLoads s) i"
      by (cases "live (stickerLoads s) i") (simp_all add: sticker_onLoad_def sticker_onError_def)
    then show "Suc i = length (stickerLoads s) \<and> stickerCleanup s = Some i" by (rule d)
  qed
  from 1 2 3 4 5 6 7 8 show ?thesis by blast
qed

theorem stale_load_never_committed_witness:
  "texture (run [TextureEffect (Some ''metal.jpg''), TextureEffect (Some ''uv.jpg''),
                 TextureLoaded 1 (Tex 2), TextureLoaded 0 (Tex 1)] (mount plain_store)) = Some (Tex 2)
   \<and> texture (run [TextureEffect (Some ''metal.jpg''), TextureEffect (Some ''uv.jpg''),
                 TextureLoaded 1 (Tex 2), TextureFailed 0] (mount plain_store)) = Some (Tex 2)
   \<and> req_url (textureLoads (run [TextureEffect (Some ''metal.jpg''), TextureEffect (Some ''uv.jpg''),
                 TextureLoaded 1 (Tex 2)] (mount plain_store)) ! 0) = ''metal.jpg''"
  using stale_load_never_committed [where u = "''metal.jpg''" and ?evs1.0 = "[]" and store = plain_store
      and ?evs2.0 = "[]" and url' = "Some ''uv.jpg''" and ?evs3.0 = "[TextureLoaded 1 (Tex 2)]"
      and t = "Tex 1" and evs = "[]" and i = 0]
  by (simp add: load_eval_defs)

text \<open>
  C7, as the code has it. The error callback of a load that has not been superseded sets
  the texture state (respectively the sticker texture state) to \<open>null\<close> and changes nothing
  else; the error callback of a superseded load changes nothing. In neither case is anything
  written to the console or any error raised.
\<close>

theorem load_failure_degrades:
  "(live (textureLoads s) i \<longrightarrow> step (TextureFailed i) s = s\<lparr>texture := None\<rparr>)
   \<and> (\<not> live (textureLoads s) i \<longrightarrow> step (TextureFailed i) s = s)
   \<and> (live (stickerLoads s) j \<longrightarrow> step (StickerFailed j) s = s\<lparr>stickerTexture := None\<rparr>)
   \<and> (\<not> live (stickerLoads s) j \<longrightarrow> step (StickerFailed j) s = s)
   \<and> console (step (TextureFailed i) s) = console s
   \<and> console (step (StickerFailed j) s) = console s"
  by (simp add: texture_onError_def sticker_onError_def)

theorem load_failure_degrades_witness:
  "stickerTexture (run [StickerEffect (Some ''a.png''), StickerLoaded 0 (Tex 1),
                        StickerEffect (Some ''b.png'')] (mount plain_store)) = Some (Tex 1)
   \<and> stickerTexture (step (StickerFailed 1)
        (run [StickerEffect (Some ''a.png''), StickerLoaded 0 (Tex 1),
              StickerEffect (Some ''b.png'')] (mount plain_store))) = None
   \<and> texture (step (TextureFailed 0) (run [TextureEffect (Some ''a.jpg'')] (mount plain_store))) = None"
  using load_failure_degrades [where s =
      "run [StickerEffect (Some ''a.png''), StickerLoaded 0 (Tex 1), StickerEffect (Some ''b.png'')]
         (mount plain_store)" and i = 0 and j = 1]
    load_failure_degrades [where s = "run [TextureEffect (Some ''a.jpg'')] (mount plain_store)"
      and i = 0 and j = 0]
  by (simp add: load_eval_defs)

text \<open>
  The claim as stated fails in two ways: a superseded load that fails leaves the texture of
  the newer selection in place, and a failure writes nothing to the console (lines 149-151
  and 266-268 hold no logging call).
\<close>

theorem load_failure_counterexample:
  "texture (run [TextureEffect (Some ''metal.jpg''), TextureEffect (Some ''uv.jpg''),
                 TextureLoaded 1 (Tex 2), TextureFailed 0] (mount plain_store)) = Some (Tex 2)
   \<and> console (run [TextureEffect (Some ''metal.jpg''), TextureFailed 0] (mount plain_store)) = []
   \<and> console (run [StickerEffect (Some ''s.png''), StickerFailed 0] (mount plain_store)) = []"
  by (simp add: load_eval_defs)

section \<open>The colour stage of the patched shader\<close>

lemma clamp_unit: "0 \<le> clamp x 0 1 \<and> clamp x 0 1 \<le> 1"
  by (simp add: clamp_def)

lemma clamp_id: "0 \<le> m \<Longrightarrow> m \<le> 1 \<Longrightarrow> clamp m 0 1 = m"
  by (simp add: clamp_def)

lemma smoothstep_le_1: "smoothstep e0 e1 x \<le> 1"
proof -
  define t where "t = clamp ((x - e0) / (e1 - e0)) 0 1"
  have t: "0 \<le> t" "t \<le> 1" using clamp_unit by (simp_all add: t_def)
  have "1 - t * t * (3 - 2 * t) = (1 - t) * (1 - t) * (1 + 2 * t)" by (simp add: algebra_simps)
  moreover have "0 \<le> (1 - t) * (1 - t) * (1 + 2 * t)" using t by simp
  ultimately have "t * t * (3 - 2 * t) \<le> 1" by linarith
  then show ?thesis by (simp add: smoothstep_def t_def Let_def)
qed

lemma mix_one: "mix a b 1 = b"
  by (cases a, cases b) (simp add: mix_def)

lemma blend_saturates: "1 \<le> c \<Longrightarrow> max (smoothstep e0 e1 x) (clamp c 0 1) = 1"
  using smoothstep_le_1 [of e0 e1 x] by (simp add: clamp_def)

text \<open>
  With \<open>USE_MAP\<close> defined and a blend factor that is not negative (the animator keeps it in
  the unit interval), the stage computes what the specification says: the noise sample at
  the coordinate scaled by 8 and shifted by twice the blend factor, the smoothstep edge, the
  maximum with the clamped blend factor, and the base colour times the mix of the two map
  samples. At blend factor 1 the result is the base colour times the sample of the next
  map, whatever the noise. Without \<open>USE_MAP\<close> the stage is compiled out and the base colour
  stays as it is.
\<close>

lemma color_stage_with_map:
  assumes "0 \<le> m"
  shows "map_fragment True prevMap nextMap noiseMap m uv c
           = spec_color_stage prevMap nextMap noiseMap m uv c
       \<and> map_fragment True prevMap nextMap noiseMap 1 uv c = vmul c (nextMap uv)
       \<and> map_fragment False prevMap nextMap noiseMap m uv c = c"
proof -
  have one: "map_fragment True prevMap nextMap noiseMap 1 uv c = vmul c (nextMap uv)"
    using blend_saturates [of 1] by (simp add: map_fragment_def Let_def mix_one)
  have eq: "map_fragment True prevMap nextMap noiseMap m uv c
           = spec_color_stage prevMap nextMap noiseMap m uv c"
  proof (cases "m \<le> 1")
    case True
    with assms show ?thesis
      by (simp add: map_fragment_def spec_color_stage_def Let_def clamp_id noise_coord_def
          mult.commute)
  next
    case False
    then have "1 \<le> m" by simp
    then have "max (smoothstep a b x) (clamp m 0 1) = 1" for a b x
      by (rule blend_saturates)
    then show ?thesis
      by (simp add: map_fragment_def spec_color_stage_def Let_def noise_coord_def mult.commute)
  qed
  show ?thesis using one eq by (simp add: map_fragment_def)
qed

lemma color_stage_with_map_example:
  "map_fragment True grey (\<lambda>_. (1, 0, 0, 1)) grey 1 (0, 0) (1, 1, 1, 1) = (1, 0, 0, 1)
   \<and> map_fragment True grey grey grey (1 / 2) (0, 0) (1, 1, 1, 1)
       = spec_color_stage grey grey grey (1 / 2) (0, 0) (1, 1, 1, 1)"
  using color_stage_with_map [of 1 grey "\<lambda>_. (1, 0, 0, 1)" grey "(0, 0)" "(1, 1, 1, 1)",
      THEN conjunct2, THEN conjunct1]
    color_stage_with_map [of "1 / 2" grey grey grey "(0, 0)" "(1, 1, 1, 1)", THEN conjunct1]
  by (simp add: vmul_def)

text \<open>
  No event of the component assigns \<open>material.map\<close>: a material that the loader delivered
  without a colour map never has one, and its compiled stage leaves the base colour as it
  is, whatever the uniforms hold.
\<close>

lemma full_frame: "min 1 (double (double (1 / double (4 / 5)))) = 1"
  using advance_bounds(5) [of 0 1] double_0_8_bounds by simp

lemmas texture_eval_defs = texture_effect_def texture_onLoad_def live_def cancel_def

lemma map_less_state:
  "blendUniforms (mats (run [PatchEffect one_mesh_scene, Compile 0, TextureEffect (Some ''uv.jpg''),
        TextureLoaded 0 (Tex 2), PatchEffect one_mesh_scene, TextureChangeEffect, Frame 1]
        (mount plain_store)) 0)
     = Some \<lparr>uPrevMap = FallbackTexture, uNextMap = Tex 2, uNoiseMap = NoiseTexture, uMix = 1\<rparr>"
  "map_m (mats (run [PatchEffect one_mesh_scene, Compile 0, TextureEffect (Some ''uv.jpg''),
        TextureLoaded 0 (Tex 2), PatchEffect one_mesh_scene, TextureChangeEffect, Frame 1]
        (mount plain_store)) 0) = None"
  "transitionProgress (mats (run [PatchEffect one_mesh_scene, Compile 0, TextureEffect (Some ''uv.jpg''),
        TextureLoaded 0 (Tex 2), PatchEffect one_mesh_scene, TextureChangeEffect, Frame 1]
        (mount plain_store)) 0) = Some 1"
  by (simp_all add: eval_defs texture_eval_defs full_frame)


lemma fold_store_field:
  "(\<And>m h. F (f m (h m)) = F (h m)) \<Longrightarrow> F (fold (\<lambda>m h. h(m := f m (h m))) ms h x) = F (h x)"
  by (induction ms arbitrary: h) simp_all

lemma patch_material_map [simp]: "map_m (mats (patch_material a s) m) = map_m (mats s m)"
  by (simp add: patch_material_def Let_def install_hook_def default_pbr_def record_original_def)

lemma fold_patch_material_map [simp]:
  "map_m (mats (fold patch_material ms s) m) = map_m (mats s m)"
  by (induction ms arbitrary: s) simp_all

lemma visit_object_map [simp]: "map_m (mats (visit_object ob s) m) = map_m (mats s m)"
  by (simp add: visit_object_def Let_def split: option.split)

lemma fold_visit_object_map [simp]:
  "map_m (mats (fold visit_object obs s) m) = map_m (mats s m)"
  by (induction obs arbitrary: s) simp_all

lemma patch_effect_map [simp]: "map_m (mats (patch_effect scene s) m) = map_m (mats s m)"
  by (simp add: patch_effect_def)

lemma retarget_map [simp]: "map_m (retarget orig tex mat) = map_m mat"
  by (simp add: retarget_def Let_def split: option.split)

lemma frame_material_map [simp]: "map_m (frame_material d mat) = map_m mat"
  by (simp add: frame_material_def Let_def split: option.split)

lemma texture_change_map [simp]: "map_m (mats (texture_change_effect s) m) = map_m (mats s m)"
  by (simp add: texture_change_effect_def retarget_fold_store
        fold_store_field [where F = map_m and f = "\<lambda>m. retarget (original_of s m) (texture s)"])

lemma useFrame_map [simp]: "map_m (mats (useFrame d s) m) = map_m (mats s m)"
  by (simp add: useFrame_def frames_fold_store Let_def
        fold_store_field [where F = map_m and f = "\<lambda>_. frame_material d"] split: option.split)

lemma compile_map [simp]: "map_m (mats (compile a s) m) = map_m (mats s m)"
  by (simp add: compile_def run_hook_def Let_def)

lemma step_map: "map_m (mats (step ev s) m) = map_m (mats s m)"
  by (cases ev)
     (simp_all add: texture_effect_def texture_onLoad_def texture_onError_def sticker_effect_def
        sticker_onLoad_def sticker_onError_def auto_frame_def Let_def split: option.split)

lemma run_map: "map_m (mats (run evs s) m) = map_m (mats s m)"
  unfolding run_def by (induction evs arbitrary: s) (simp_all add: step_map)

lemma map_less_fragment:
  assumes "map_m (store m) = None" "blendUniforms (mats (run evs (mount store)) m) \<noteq> None"
  shows "material_fragment pixels (mats (run evs (mount store)) m) uv c = Some c"
proof -
  have "map_m (mats (run evs (mount store)) m) = None"
    using assms(1) by (simp add: run_map mount_def)
  then show ?thesis using assms(2) by (auto simp: material_fragment_def map_fragment_def)
qed

text \<open>
  C5. For a material with a colour map the stage is the one of the specification
  (\<open>color_stage_with_map\<close>). For a material without one it is not. The hook gives such a
  material the white fallback texture as previous and next map (lines 179-180), the
  texture-change effect writes the chosen texture into \<open>uNextMap\<close> (line 240) and the frames
  bring \<open>uMix\<close> to 1, but the block that samples them is inside \<open>#ifdef USE_MAP\<close> and
  \<open>material.map\<close> is never set: after the user picks a texture for a model without a
  colour map, the uniforms hold the new texture at blend factor 1 and the stage still
  returns the base colour unchanged, where the specification has the base colour times the
  sample of the next map.
\<close>

theorem color_stage_map_less:
  "blendUniforms (mats (run [PatchEffect one_mesh_scene, Compile 0, TextureEffect (Some ''uv.jpg''),
        TextureLoaded 0 (Tex 2), PatchEffect one_mesh_scene, TextureChangeEffect, Frame 1]
        (mount plain_store)) 0)
     = Some \<lparr>uPrevMap = FallbackTexture, uNextMap = Tex 2, uNoiseMap = NoiseTexture, uMix = 1\<rparr>
   \<and> map_m (mats (run [PatchEffect one_mesh_scene, Compile 0, TextureEffect (Some ''uv.jpg''),
        TextureLoaded 0 (Tex 2), PatchEffect one_mesh_scene, TextureChangeEffect, Frame 1]
        (mount plain_store)) 0) = None
   \<and> material_fragment pixels (mats (run [PatchEffect one_mesh_scene, Compile 0,
        TextureEffect (Some ''uv.jpg''), TextureLoaded 0 (Tex 2), PatchEffect one_mesh_scene,
        TextureChangeEffect, Frame 1] (mount plain_store)) 0) uv c = Some c
   \<and> spec_color_stage (pixels FallbackTexture) (pixels (Tex 2)) (pixels NoiseTexture) 1 uv c
       = vmul c (pixels (Tex 2) uv)
   \<and> material_fragment sample_pixels (mats (run [PatchEffect one_mesh_scene, Compile 0,
        TextureEffect (Some ''uv.jpg''), TextureLoaded 0 (Tex 2), PatchEffect one_mesh_scene,
        TextureChangeEffect, Frame 1] (mount plain_store)) 0) (0, 0) (1, 1, 1, 1) = Some (1, 1, 1, 1)
   \<and> spec_color_stage (sample_pixels FallbackTexture) (sample_pixels (Tex 2))
        (sample_pixels NoiseTexture) 1 (0, 0) (1, 1, 1, 1) = (1 / 2, 1 / 2, 1 / 2, 1)"
proof -
  have stage: "spec_color_stage p n z 1 uv' c' = vmul c' (n uv')" for p n z uv' c'
    using blend_saturates [of 1] by (simp add: spec_color_stage_def Let_def mix_one)
  have frag: "material_fragment px (mats (run [PatchEffect one_mesh_scene, Compile 0,
        TextureEffect (Some ''uv.jpg''), TextureLoaded 0 (Tex 2), PatchEffect one_mesh_scene,
        TextureChangeEffect, Frame 1] (mount plain_store)) 0) uv' c' = Some c'" for px uv' c'
    by (simp add: material_fragment_def map_fragment_def map_less_state)
  have grey: "vmul (1, 1, 1, 1) (sample_pixels (Tex 2) (0, 0)) = (1 / 2, 1 / 2, 1 / 2, 1)"
    by (simp add: vmul_def sample_pixels_def grey_def)
  show ?thesis using map_less_state(1,2) by (simp add: stage frag grey)
qed

section \<open>The auto-frame effect\<close>

lemma axis_size: "max (k * l) (k * h) - min (k * l) (k * h) = \<bar>k\<bar> * \<bar>h - l\<bar>" for k :: real
proof -
  have "max (k * l) (k * h) - min (k * l) (k * h) = \<bar>k * h - k * l\<bar>"
    by (simp add: max_def min_def)
  also have "\<dots> = \<bar>k * (h - l)\<bar>" by (simp add: right_diff_distrib)
  also have "\<dots> = \<bar>k\<bar> * \<bar>h - l\<bar>" by (simp add: abs_mult)
  finally show ?thesis .
qed

lemma axis_center:
  "(min (k * l) (k * h) + p + (max (k * l) (k * h) + p)) / 2 = k * (l + h) / 2 + p" for k :: real
  by (simp add: max_def min_def distrib_left)

lemma native_extent_nonneg: "0 \<le> native_extent content"
  by (auto simp: native_extent_def split: option.split)

lemma measured_extent: "max_extent (setFromObject g content) = \<bar>g_scale g\<bar> * native_extent content"
proof (cases content)
  case None
  then show ?thesis by (simp add: max_extent_def setFromObject_def getSize_def native_extent_def)
next
  case (Some b)
  obtain lx ly lz hx hy hz where b: "b = ((lx, ly, lz), (hx, hy, hz))" by (metis prod_cases3)
  obtain px py pz where p: "g_position g = (px, py, pz)" by (metis prod_cases3)
  have m: "max (\<bar>k\<bar> * a) (\<bar>k\<bar> * c) = \<bar>k\<bar> * max a c" for k a c :: real
    by (simp add: max_mult_distrib_left)
  show ?thesis
    by (simp add: Some b p max_extent_def setFromObject_def getSize_def native_extent_def
        Let_def axis_size m)
qed

lemma measured_center:
  assumes "content = Some ((lx, ly, lz), (hx, hy, hz))" "g_position g = (px, py, pz)"
  shows "getCenter (setFromObject g content) =
         (g_scale g * (lx + hx) / 2 + px, g_scale g * (ly + hy) / 2 + py, g_scale g * (lz + hz) / 2 + pz)"
  by (simp only: assms setFromObject_def getCenter_def Let_def option.case prod.case axis_center)

lemma frame_group_scale:
  "g_scale (frame_group content g) =
     (if 0 < max_extent (setFromObject g content) then 2.4 / max_extent (setFromObject g content) else 1)"
  by (simp add: frame_group_def Let_def)

lemma frame_group_centred: "getCenter (setFromObject (frame_group content g) content) = (0, 0, 0)"
proof (cases content)
  case None
  then show ?thesis by (simp add: setFromObject_def getCenter_def)
next
  case (Some b)
  obtain lx ly lz hx hy hz where b: "content = Some ((lx, ly, lz), (hx, hy, hz))"
    using Some by (metis prod_cases3)
  obtain px py pz where p: "g_position g = (px, py, pz)" by (metis prod_cases3)
  define k where "k = g_scale (frame_group content g)"
  define g1 where "g1 = g\<lparr>g_scale := k\<rparr>"
  have g1: "g_position g1 = (px, py, pz)" "g_scale g1 = k" by (simp_all add: g1_def p)
  have fg: "frame_group content g = g1\<lparr>g_position := vsub (g_position g1) (getCenter (setFromObject g1 content))\<rparr>"
    by (simp add: frame_group_def Let_def g1_def k_def)
  have c1: "getCenter (setFromObject g1 content) =
            (k * (lx + hx) / 2 + px, k * (ly + hy) / 2 + py, k * (lz + hz) / 2 + pz)"
    using measured_center [OF b g1(1)] by (simp add: g1(2))
  have pos: "g_position (frame_group content g) = (- (k * (lx + hx) / 2), - (k * (ly + hy) / 2), - (k * (lz + hz) / 2))"
    by (simp add: fg c1 g1 vsub_def)
  have sc: "g_scale (frame_group content g) = k" by (simp add: k_def)
  show ?thesis using measured_center [OF b pos] by (simp add: sc)
qed

lemmas frame_eval_defs = auto_frame_def frame_group_def setFromObject_def getSize_def getCenter_def
  max_extent_def vsub_def mount_def identity_group_def Let_def

text \<open>
  With the group at unit scale when the effect runs, as it is after
  the mount: if the measured largest extent is positive the group is scaled by 2.4 divided
  by it and the box measured afterwards has largest extent 2.4; if it is zero (degenerate
  or no geometry) the scale is 1, nothing is divided, and the largest extent stays 0. In
  both cases the box measured after the translation has its centre at the origin.
\<close>

lemma auto_frame_first_load:
  assumes "groupRef s = Some g" and "g_scale g = 1"
  shows "auto_frame content s = s\<lparr>groupRef := Some (frame_group content g)\<rparr>
       \<and> (0 < max_extent (setFromObject g content) \<longrightarrow>
             g_scale (frame_group content g) = 2.4 / max_extent (setFromObject g content)
           \<and> max_extent (setFromObject (frame_group content g) content) = 2.4)
       \<and> (max_extent (setFromObject g content) \<le> 0 \<longrightarrow>
             g_scale (frame_group content g) = 1
           \<and> max_extent (setFromObject (frame_group content g) content) = 0)
       \<and> getCenter (setFromObject (frame_group content g) content) = (0, 0, 0)"
proof -
  have e: "max_extent (setFromObject g content) = native_extent content"
    using assms(2) by (simp add: measured_extent)
  have a: "auto_frame content s = s\<lparr>groupRef := Some (frame_group content g)\<rparr>"
    using assms(1) by (simp add: auto_frame_def)
  have b: "g_scale (frame_group content g) = 2.4 / native_extent content
           \<and> max_extent (setFromObject (frame_group content g) content) = 2.4"
    if pos: "0 < native_extent content"
  proof -
    have k: "g_scale (frame_group content g) = 2.4 / native_extent content"
      using pos by (simp add: frame_group_scale e)
    have "max_extent (setFromObject (frame_group content g) content)
          = \<bar>2.4 / native_extent content\<bar> * native_extent content"
      by (simp only: measured_extent k)
    also have "\<dots> = 2.4" using pos by simp
    finally show ?thesis using k by simp
  qed
  have c: "g_scale (frame_group content g) = 1
           \<and> max_extent (setFromObject (frame_group content g) content) = 0"
    if "native_extent content \<le> 0"
  proof -
    have z: "native_extent content = 0" using that native_extent_nonneg [of content] by simp
    have k: "g_scale (frame_group content g) = 1" by (simp add: frame_group_scale e z)
    have "max_extent (setFromObject (frame_group content g) content) = \<bar>1\<bar> * native_extent content"
      by (simp only: measured_extent k)
    then show ?thesis using k z by simp
  qed
  show ?thesis using a b c frame_group_centred [of content g] by (simp add: e)
qed

lemma auto_frame_first_load_example:
  "groupRef (auto_frame (Some ((0, 0, 0), (4, 2, 1))) (mount plain_store))
     = Some (frame_group (Some ((0, 0, 0), (4, 2, 1))) identity_group)
   \<and> g_scale (frame_group (Some ((0, 0, 0), (4, 2, 1))) identity_group) = 3 / 5
   \<and> max_extent (setFromObject (frame_group (Some ((0, 0, 0), (4, 2, 1))) identity_group)
         (Some ((0, 0, 0), (4, 2, 1)))) = 2.4
   \<and> getCenter (setFromObject (frame_group (Some ((0, 0, 0), (4, 2, 1))) identity_group)
         (Some ((0, 0, 0), (4, 2, 1)))) = (0, 0, 0)"
  using auto_frame_first_load [of "mount plain_store" identity_group "Some ((0, 0, 0), (4, 2, 1))"]
  by (simp add: frame_eval_defs)

text \<open>A model that is a single point keeps unit scale and a largest extent of 0.\<close>

lemma auto_frame_degenerate_example:
  "groupRef (auto_frame (Some ((1, 2, 3), (1, 2, 3))) (mount plain_store))
     = Some (frame_group (Some ((1, 2, 3), (1, 2, 3))) identity_group)
   \<and> g_scale (frame_group (Some ((1, 2, 3), (1, 2, 3))) identity_group) = 1
   \<and> max_extent (setFromObject (frame_group (Some ((1, 2, 3), (1, 2, 3))) identity_group)
         (Some ((1, 2, 3), (1, 2, 3)))) = 0
   \<and> max_extent (setFromObject (frame_group (Some ((1, 2, 3), (1, 2, 3))) identity_group)
         (Some ((1, 2, 3), (1, 2, 3)))) \<noteq> 2.4"
  by (simp add: frame_eval_defs)

text \<open>
  When the effect runs with the group at another positive scale \<open>k\<close>, the measured box is
  the scaled one, and the new absolute scale leaves a largest extent of \<open>2.4 / k\<close>.
\<close>

lemma auto_frame_later_load:
  assumes "0 < g_scale g" and "0 < native_extent content"
  shows "max_extent (setFromObject (frame_group content g) content) = 2.4 / g_scale g"
proof -
  have m: "0 < max_extent (setFromObject g content)" using assms by (simp add: measured_extent)
  have k: "g_scale (frame_group content g) = 2.4 / (g_scale g * native_extent content)"
    using m assms by (simp add: frame_group_scale measured_extent)
  have "max_extent (setFromObject (frame_group content g) content)
        = \<bar>2.4 / (g_scale g * native_extent content)\<bar> * native_extent content"
    by (simp only: measured_extent k)
  also have "\<dots> = 2.4 / g_scale g" using assms by simp
  finally show ?thesis .
qed

lemma stale_scale_general:
  assumes "0 < native_extent a" "0 < native_extent b"
  shows "map_option (\<lambda>g. max_extent (setFromObject g b))
           (groupRef (run [AutoFrameEffect a, AutoFrameEffect b] (mount store)))
         = Some (native_extent a)"
proof -
  let ?g1 = "frame_group a identity_group"
  have m: "0 < max_extent (setFromObject identity_group a)"
    using assms(1) by (simp add: measured_extent identity_group_def)
  have k: "g_scale ?g1 = 2.4 / native_extent a"
    using m by (simp add: frame_group_scale measured_extent identity_group_def)
  have pos: "0 < g_scale ?g1" using assms(1) by (simp add: k)
  have "max_extent (setFromObject (frame_group b ?g1) b) = 2.4 / g_scale ?g1"
    by (rule auto_frame_later_load [OF pos assms(2)])
  also have "\<dots> = native_extent a" using assms(1) by (simp add: k)
  finally show ?thesis by (simp add: run_def auto_frame_def mount_def)
qed

text \<open>
  C4. The effect measures the box, sets the scale to 2.4 divided by the largest extent (1
  when that is zero, so nothing is divided by zero), measures again and moves the centre
  to the origin: the centre is at the origin after every run (\<open>frame_group_centred\<close>), and
  the largest extent is 2.4 after the first run for a model of positive extent
  (\<open>auto_frame_first_load\<close>). But the first measurement (line 277) is taken under the scale
  that the previous run left on the group, and line 281 sets the new scale absolutely, not
  relative to it. The group outlives a change of model, so for the second model the extent
  is not 2.4 but the extent of the first model at unit scale (\<open>stale_scale_general\<close>): a
  model of extent 4 and then one of extent 2 leave the scale at 2 and the second model with
  a largest extent of 4.
\<close>

theorem auto_frame_stale_scale:
  "map_option g_scale (groupRef (run [AutoFrameEffect (Some ((0, 0, 0), (4, 2, 1)))] (mount plain_store)))
     = Some (3 / 5)
   \<and> map_option (\<lambda>g. max_extent (setFromObject g (Some ((0, 0, 0), (4, 2, 1)))))
       (groupRef (run [AutoFrameEffect (Some ((0, 0, 0), (4, 2, 1)))] (mount plain_store)))
     = Some 2.4
   \<and> map_option g_scale (groupRef (run [AutoFrameEffect (Some ((0, 0, 0), (4, 2, 1))),
         AutoFrameEffect (Some ((0, 0, 0), (2, 1, 1)))] (mount plain_store)))
     = Some 2
   \<and> map_option (\<lambda>g. max_extent (setFromObject g (Some ((0, 0, 0), (2, 1, 1)))))
       (groupRef (run [AutoFrameEffect (Some ((0, 0, 0), (4, 2, 1))),
         AutoFrameEffect (Some ((0, 0, 0), (2, 1, 1)))] (mount plain_store)))
     = Some 4
   \<and> map_option (\<lambda>g. getCenter (setFromObject g (Some ((0, 0, 0), (2, 1, 1)))))
       (groupRef (run [AutoFrameEffect (Some ((0, 0, 0), (4, 2, 1))),
         AutoFrameEffect (Some ((0, 0, 0), (2, 1, 1)))] (mount plain_store)))
     = Some (0, 0, 0)"
  by (simp add: run_def frame_eval_defs)

end
